theory Spec2Isabelle
  imports Complex_Main "HOL-Library.Sublist" "HOL-Library.AList" "HOL-Library.Log_Nat"
begin

section \<open>The Power+ backend: metric, column resolution, cache and query facade\<close>

text \<open>
  A shallow embedding of \<^verbatim>\<open>src/api_server.py\<close>.

  Numbers. A Python float is an IEEE 754 binary64 value: \<open>Num q\<close> is the finite double
  whose exact value is the rational \<open>q\<close>, \<open>PInf\<close> and \<open>NInf\<close> are the infinities and
  \<open>NaN\<close> is not-a-number; Python's \<open>None\<close> is \<open>PyNone\<close>. The sign of zero is not
  kept (\<^verbatim>\<open>0.0 == -0.0\<close>, and nothing below divides by zero). Every arithmetic
  operation computes the exact result and rounds it to the nearest double, ties to the
  even significand, as the hardware does.
\<close>

subsection \<open>Values\<close>

datatype pynum = PyNone | NaN | Num rat | PInf | NInf

text \<open>\<^verbatim>\<open>pd.isna\<close>: true of \<open>None\<close> and of NaN, false of every other float.\<close>

fun isna :: "pynum \<Rightarrow> bool" where
  "isna PyNone = True"
| "isna NaN = True"
| "isna _ = False"

text \<open>Python's \<^verbatim>\<open>a <= b\<close> on floats: false as soon as one side is NaN.\<close>

fun float_le :: "pynum \<Rightarrow> pynum \<Rightarrow> bool" where
  "float_le (Num a) (Num b) = (a \<le> b)"
| "float_le NInf (Num b) = True"
| "float_le NInf NInf = True"
| "float_le NInf PInf = True"
| "float_le (Num a) PInf = True"
| "float_le PInf PInf = True"
| "float_le _ _ = False"

subsection \<open>Double-precision arithmetic\<close>

text \<open>
  Rounding to an integer, an exact tie going to the even integer (\<^verbatim>\<open>rint\<close>, and the
  rounding of a significand).
\<close>

definition round_half_even :: "rat \<Rightarrow> int" where
  "round_half_even x =
     (let f = \<lfloor>x\<rfloor>; d = x - of_int f
      in if d < 1 / 2 then f
         else if 1 / 2 < d then f + 1
         else if even f then f else f + 1)"

text \<open>
  \<open>ilog2 x\<close> is the binary exponent of a positive rational: \<open>2 powi ilog2 x \<le> x <
  2 powi (ilog2 x + 1)\<close>. The significand of a double has 53 bits, so the last bit of a
  positive \<open>x\<close> weighs \<open>2 powi last_bit x\<close>, and never less than \<open>2 powi - 1074\<close>
  (subnormal numbers); \<open>nearest x\<close> is the nearest multiple of that weight.
  \<open>round_pos\<close> rounds a positive rational to the nearest double: a result of
  \<open>2 ^ 1024\<close> or more overflows to infinity. \<open>to_double\<close> does so for any
  rational; it is also the value of a float literal such as \<^verbatim>\<open>7.3\<close>.
\<close>

definition ilog2 :: "rat \<Rightarrow> int" where
  "ilog2 x =
     (let (p, q) = quotient_of x; d = bitlen p - bitlen q
      in if 2 powi d \<le> x then d else d - 1)"

definition last_bit :: "rat \<Rightarrow> int" where
  "last_bit x = max (ilog2 x - 52) (- 1074)"

definition nearest :: "rat \<Rightarrow> rat" where
  "nearest x = of_int (round_half_even (x / 2 powi last_bit x)) * 2 powi last_bit x"

definition overflow_bound :: rat where
  "overflow_bound = 2 ^ 1024"

definition round_pos :: "rat \<Rightarrow> pynum" where
  "round_pos x = (if overflow_bound \<le> nearest x then PInf else Num (nearest x))"

fun fneg :: "pynum \<Rightarrow> pynum" where
  "fneg (Num x) = Num (- x)"
| "fneg PInf = NInf"
| "fneg NInf = PInf"
| "fneg v = v"

definition to_double :: "rat \<Rightarrow> pynum" where
  "to_double x =
     (if x = 0 then Num 0
      else if 0 < x then round_pos x
      else fneg (round_pos (- x)))"

text \<open>
  Division and multiplication of floats, with the infinities and NaN of IEEE 754. The
  source never divides by zero (line 31 returns first, and the league constants are not
  zero), so what \<open>fdiv\<close> gives for the divisor \<open>Num 0\<close> is never used; \<open>None\<close> is not
  a float and never reaches these operations.
\<close>

fun fdiv :: "pynum \<Rightarrow> pynum \<Rightarrow> pynum" where
  "fdiv (Num a) (Num b) = to_double (a / b)"
| "fdiv (Num a) PInf = Num 0"
| "fdiv (Num a) NInf = Num 0"
| "fdiv PInf (Num b) = (if 0 \<le> b then PInf else NInf)"
| "fdiv NInf (Num b) = (if 0 \<le> b then NInf else PInf)"
| "fdiv _ _ = NaN"

fun fmul :: "pynum \<Rightarrow> pynum \<Rightarrow> pynum" where
  "fmul (Num a) (Num b) = to_double (a * b)"
| "fmul PInf (Num b) = (if 0 < b then PInf else if b < 0 then NInf else NaN)"
| "fmul NInf (Num b) = (if 0 < b then NInf else if b < 0 then PInf else NaN)"
| "fmul (Num a) PInf = (if 0 < a then PInf else if a < 0 then NInf else NaN)"
| "fmul (Num a) NInf = (if 0 < a then NInf else if a < 0 then PInf else NaN)"
| "fmul PInf PInf = PInf"
| "fmul NInf NInf = PInf"
| "fmul PInf NInf = NInf"
| "fmul NInf PInf = NInf"
| "fmul _ _ = NaN"

text \<open>
  \<^verbatim>\<open>round(x, 1)\<close> dispatches on the class of \<open>x\<close>. The built-in \<^verbatim>\<open>float\<close> rounds the
  exact value of \<open>x\<close> to the nearest tenth, ties to the even tenth, and returns the double
  nearest to that decimal. \<^verbatim>\<open>numpy.float64\<close> computes \<^verbatim>\<open>rint(x * 10) / 10\<close> in
  doubles. Both leave an infinity or NaN as it is. The two differ near ties, so the class
  of the number is a parameter of everything that rounds.
\<close>

datatype float_class = builtin_float | numpy_float64

fun py_round1 :: "pynum \<Rightarrow> pynum" where
  "py_round1 (Num x) = to_double (of_int (round_half_even (x * 10)) / 10)"
| "py_round1 v = v"

fun rint :: "pynum \<Rightarrow> pynum" where
  "rint (Num x) = Num (of_int (round_half_even x))"
| "rint v = v"

definition np_round1 :: "pynum \<Rightarrow> pynum" where
  "np_round1 v = fdiv (rint (fmul v (Num 10))) (Num 10)"

fun round1 :: "float_class \<Rightarrow> pynum \<Rightarrow> pynum" where
  "round1 builtin_float v = py_round1 v"
| "round1 numpy_float64 v = np_round1 v"

subsection \<open>Constants (lines 19--26)\<close>

type_synonym instant = int  \<comment> \<open>microseconds, the resolution of \<^verbatim>\<open>datetime\<close>\<close>

definition CACHE_DURATION :: int where
  "CACHE_DURATION = 6 * 3600 * 1000000"

definition LEAGUE_AVG_BAT_SPEED :: pynum where
  "LEAGUE_AVG_BAT_SPEED = to_double 72"

definition LEAGUE_AVG_SWING_LENGTH :: pynum where
  "LEAGUE_AVG_SWING_LENGTH = to_double (73 / 10)"

definition LEAGUE_AVG_EFFICIENCY :: pynum where
  "LEAGUE_AVG_EFFICIENCY = fdiv LEAGUE_AVG_BAT_SPEED LEAGUE_AVG_SWING_LENGTH"

subsection \<open>Metric calculator (lines 29--51)\<close>

text \<open>
  The first argument is the class of the two numbers (and so of the product that is
  rounded); \<^verbatim>\<open>swing_length == 0\<close> is true of the float zero only.
\<close>

definition calculate_power_plus :: "float_class \<Rightarrow> pynum \<Rightarrow> pynum \<Rightarrow> pynum" where
  "calculate_power_plus cls bat_speed swing_length =
     (if swing_length = Num 0 \<or> isna swing_length \<or> isna bat_speed then PyNone
      else (let player_efficiency = fdiv bat_speed swing_length;
                power_plus = fmul (fdiv player_efficiency LEAGUE_AVG_EFFICIENCY) (Num 100)
            in round1 cls power_plus))"

definition get_grade :: "pynum \<Rightarrow> string" where
  "get_grade power_plus =
     (if isna power_plus then ''N/A''
      else (case power_plus of
              Num p \<Rightarrow>
                (if 110 \<le> p then ''Elite''
                 else if 105 \<le> p then ''Above Average''
                 else if 95 \<le> p then ''Average''
                 else if 90 \<le> p then ''Below Average''
                 else ''Poor'')
            | PInf \<Rightarrow> ''Elite''
            | NInf \<Rightarrow> ''Poor''
            | _ \<Rightarrow> ''N/A''))"

subsection \<open>Tables\<close>

text \<open>
  A cell of a table is a float or \<open>None\<close> (\<open>Numeric\<close>), or text that is not a
  number (\<open>Text\<close>). A row is a dictionary from column names to cells, kept as an
  association list in column order; a table (a \<^verbatim>\<open>DataFrame\<close>) is its ordered column
  names and its rows in source order. In a table every row has exactly the table's
  columns as keys; \<open>cell_of\<close> reads a cell and is only applied to such columns.
  \<open>numbers\<close> is the class of the numbers a row hands to the function of
  \<^verbatim>\<open>df.apply(..., axis=1)\<close>: pandas fixes it from the dtypes of the columns (the
  built-in \<^verbatim>\<open>float\<close> when the row is an object row, as with a column of names,
  \<^verbatim>\<open>numpy.float64\<close> when every column is numeric); it is kept as a field of the table
  and nothing is assumed about it.
\<close>

datatype cell = Numeric pynum | Text string

type_synonym row = "(string \<times> cell) list"

record dataframe =
  columns :: "string list"
  rows :: "row list"
  numbers :: float_class

definition cell_of :: "row \<Rightarrow> string \<Rightarrow> cell" where
  "cell_of r c = (case map_of r c of Some v \<Rightarrow> v | None \<Rightarrow> Numeric NaN)"

fun cell_isna :: "cell \<Rightarrow> bool" where
  "cell_isna (Numeric n) = isna n"
| "cell_isna (Text _) = False"

text \<open>\<^verbatim>\<open>pd.DataFrame()\<close> and \<^verbatim>\<open>df.empty\<close> (no column or no row).\<close>

definition empty_frame :: dataframe where
  "empty_frame = \<lparr>columns = [], rows = [], numbers = numpy_float64\<rparr>"

definition df_empty :: "dataframe \<Rightarrow> bool" where
  "df_empty df = (columns df = [] \<or> rows df = [])"

text \<open>
  \<^verbatim>\<open>df.dropna(subset=cs)\<close> keeps the rows that have no missing cell in the columns
  \<open>cs\<close>, in order.
\<close>

definition dropna :: "string list \<Rightarrow> dataframe \<Rightarrow> dataframe" where
  "dropna cs df =
     df\<lparr>rows := filter (\<lambda>r. \<forall>c \<in> set cs. \<not> cell_isna (cell_of r c)) (rows df)\<rparr>"

text \<open>
  \<^verbatim>\<open>pd.to_numeric(_, errors='coerce')\<close> on one cell: a number stays (an infinity
  too), anything else becomes NaN.
\<close>

fun to_numeric :: "cell \<Rightarrow> pynum" where
  "to_numeric (Numeric (Num q)) = Num q"
| "to_numeric (Numeric PInf) = PInf"
| "to_numeric (Numeric NInf) = NInf"
| "to_numeric (Numeric _) = NaN"
| "to_numeric (Text _) = NaN"

text \<open>
  \<^verbatim>\<open>df[c] = ...\<close> with the new value computed from each row: an existing column is
  overwritten in place, a new one is appended.
\<close>

definition setitem :: "string \<Rightarrow> (row \<Rightarrow> cell) \<Rightarrow> dataframe \<Rightarrow> dataframe" where
  "setitem c f df =
     df\<lparr>columns := (if c \<in> set (columns df) then columns df else columns df @ [c]),
        rows := map (\<lambda>r. AList.update c (f r) r) (rows df)\<rparr>"

subsection \<open>Column resolution and processing (lines 86--113)\<close>

text \<open>\<^verbatim>\<open>str.lower\<close> on ASCII letters; \<^verbatim>\<open>'x' in s\<close> is \<^const>\<open>sublist\<close>.\<close>

definition lower_char :: "char \<Rightarrow> char" where
  "lower_char c =
     (let n = (of_char c :: nat) in if 65 \<le> n \<and> n \<le> 90 then char_of (n + 32) else c)"

definition lower :: "string \<Rightarrow> string" where
  "lower s = map lower_char s"

definition speed_cols :: "string list \<Rightarrow> string list" where
  "speed_cols cols = filter (\<lambda>c. sublist ''bat_speed'' (lower c)) cols"

definition length_cols :: "string list \<Rightarrow> string list" where
  "length_cols cols = filter (\<lambda>c. sublist ''swing_length'' (lower c)) cols"

text \<open>\<^verbatim>\<open>xs[0] if xs else None\<close>\<close>

definition first_or_none :: "'a list \<Rightarrow> 'a option" where
  "first_or_none xs = (case xs of [] \<Rightarrow> None | x # _ \<Rightarrow> Some x)"

text \<open>\<^verbatim>\<open>not col\<close>: true of \<open>None\<close> and of the empty string.\<close>

definition not_col :: "string option \<Rightarrow> bool" where
  "not_col col = (case col of None \<Rightarrow> True | Some s \<Rightarrow> s = [])"

text \<open>Step 4 of \<^verbatim>\<open>process_data\<close>, for the two resolved columns.\<close>

definition clean_and_calculate :: "string \<Rightarrow> string \<Rightarrow> dataframe \<Rightarrow> dataframe" where
  "clean_and_calculate speed_col length_col df0 =
     (let df1 = dropna [speed_col, length_col] df0;
          df2 = setitem ''bat_speed'' (\<lambda>r. Numeric (to_numeric (cell_of r speed_col))) df1;
          df3 = setitem ''swing_length'' (\<lambda>r. Numeric (to_numeric (cell_of r length_col))) df2;
          df4 = setitem ''power_plus''
                  (\<lambda>r. Numeric (calculate_power_plus (numbers df0)
                                  (to_numeric (cell_of r ''bat_speed''))
                                  (to_numeric (cell_of r ''swing_length'')))) df3
      in df4)"

definition process_data :: "dataframe \<Rightarrow> dataframe" where
  "process_data df =
     (let speed_col = first_or_none (speed_cols (columns df));
          length_col = first_or_none (length_cols (columns df))
      in if not_col speed_col \<or> not_col length_col then empty_frame
         else (case (speed_col, length_col) of
                 (Some sc, Some lc) \<Rightarrow> clean_and_calculate sc lc df
               | _ \<Rightarrow> empty_frame))"

subsection \<open>Records and the cache (lines 116--148)\<close>

text \<open>
  \<^verbatim>\<open>df.replace({pd.NA: None, float('nan'): None}).to_dict('records')\<close>: every
  missing cell becomes \<open>None\<close>, every row becomes a dictionary.
\<close>

type_synonym pyrecord = "(string \<times> cell) list"

fun nan_to_none :: "cell \<Rightarrow> cell" where
  "nan_to_none (Numeric NaN) = Numeric PyNone"
| "nan_to_none c = c"

definition to_records :: "dataframe \<Rightarrow> pyrecord list" where
  "to_records df = map (map (\<lambda>(c, v). (c, nan_to_none v))) (rows df)"

text \<open>
  The cache file: absent; present but unusable (not JSON, a key missing, a timestamp
  that does not parse or cannot be subtracted from the clock); or an entry with its
  timestamp and data (what \<^verbatim>\<open>json.load\<close> gives back is what \<^verbatim>\<open>json.dump\<close> was
  given). The world a request runs in is the file, the clock and what a write to the
  file would do: succeed; fail in \<^verbatim>\<open>open\<close>, which leaves the file as it is; or fail
  in \<^verbatim>\<open>json.dump\<close>, after \<^verbatim>\<open>open(CACHE_FILE, 'w')\<close> has truncated the file, which
  leaves a file that does not parse. \<^verbatim>\<open>save_to_cache\<close> catches the exception in both
  cases.
\<close>

datatype cache_file = NoFile | Unusable | Entry instant "pyrecord list"

datatype write_outcome = Written | OpenFails | DumpFails

record world =
  cache :: cache_file
  now :: instant
  on_write :: write_outcome

definition load_cached_data :: "world \<Rightarrow> pyrecord list option" where
  "load_cached_data w =
     (case cache w of
        NoFile \<Rightarrow> None
      | Unusable \<Rightarrow> None
      | Entry cache_time d \<Rightarrow>
          if now w - cache_time < CACHE_DURATION then Some d else None)"

definition save_to_cache :: "pyrecord list \<Rightarrow> world \<Rightarrow> world" where
  "save_to_cache d w =
     (case on_write w of
        Written \<Rightarrow> w\<lparr>cache := Entry (now w) d\<rparr>
      | OpenFails \<Rightarrow> w
      | DumpFails \<Rightarrow> w\<lparr>cache := Unusable\<rparr>)"

subsection \<open>Refresh orchestrator (lines 151--171)\<close>

text \<open>
  \<^verbatim>\<open>get_data\<close> returns a list of records or the dictionary
  \<^verbatim>\<open>{"error": "No data available"}\<close>. The outcome of
  \<^verbatim>\<open>fetch_baseball_savant_data()\<close> is an input: \<open>None\<close> when the request or the
  parse failed, a table otherwise. \<open>cached_or_error\<close> is line 164,
  \<^verbatim>\<open>cached if cached else {"error": ...}\<close>, where \<open>None\<close> and the empty list are
  false. \<open>fetch_and_store\<close> is the part of \<^verbatim>\<open>get_data\<close> from line 158 on. The
  clock reads the same instant throughout one call.
\<close>

datatype response = Data "pyrecord list" | ErrorDict

definition cached_or_error :: "pyrecord list option \<Rightarrow> response" where
  "cached_or_error cached =
     (case cached of None \<Rightarrow> ErrorDict | Some d \<Rightarrow> if d \<noteq> [] then Data d else ErrorDict)"

definition fetch_and_store :: "dataframe option \<Rightarrow> world \<Rightarrow> response \<times> world" where
  "fetch_and_store fetched w =
     (case fetched of
        None \<Rightarrow> (cached_or_error (load_cached_data w), w)
      | Some df \<Rightarrow>
          if df_empty df then (cached_or_error (load_cached_data w), w)
          else (let data = to_records (process_data df)
                in (Data data, save_to_cache data w)))"

definition get_data :: "bool \<Rightarrow> dataframe option \<Rightarrow> world \<Rightarrow> response \<times> world" where
  "get_data force_refresh fetched w =
     (if \<not> force_refresh
      then (case load_cached_data w of
              Some d \<Rightarrow> if d \<noteq> [] then (Data d, w) else fetch_and_store fetched w
            | None \<Rightarrow> fetch_and_store fetched w)
      else fetch_and_store fetched w)"

subsection \<open>Query facade (lines 188--201)\<close>

text \<open>
  \<^verbatim>\<open>v >= k\<close> for a cell and an integer literal: a number is compared exactly, NaN
  compares false, \<open>None\<close> and text raise \<^verbatim>\<open>TypeError\<close>. A list comprehension stops at the
  first record whose condition raises. Iterating the error dictionary yields its key,
  a string, on which \<^verbatim>\<open>.get\<close> raises \<^verbatim>\<open>AttributeError\<close>.
\<close>

datatype py_error = TypeError | AttributeError

fun py_ge :: "cell \<Rightarrow> rat \<Rightarrow> py_error + bool" where
  "py_ge (Numeric (Num q)) k = Inr (k \<le> q)"
| "py_ge (Numeric PInf) k = Inr True"
| "py_ge (Numeric NInf) k = Inr False"
| "py_ge (Numeric NaN) k = Inr False"
| "py_ge (Numeric PyNone) k = Inl TypeError"
| "py_ge (Text _) k = Inl TypeError"

definition dict_get :: "pyrecord \<Rightarrow> string \<Rightarrow> cell \<Rightarrow> cell" where
  "dict_get p k dflt = (case map_of p k of Some v \<Rightarrow> v | None \<Rightarrow> dflt)"

fun comprehension :: "(pyrecord \<Rightarrow> py_error + bool) \<Rightarrow> pyrecord list \<Rightarrow> py_error + pyrecord list" where
  "comprehension cond [] = Inr []"
| "comprehension cond (p # ps) =
     (case cond p of
        Inl e \<Rightarrow> Inl e
      | Inr b \<Rightarrow>
          (case comprehension cond ps of
             Inl e \<Rightarrow> Inl e
           | Inr qs \<Rightarrow> Inr (if b then p # qs else qs)))"

definition over_response :: "(pyrecord \<Rightarrow> py_error + bool) \<Rightarrow> response \<Rightarrow> py_error + pyrecord list" where
  "over_response cond data =
     (case data of Data d \<Rightarrow> comprehension cond d | ErrorDict \<Rightarrow> Inl AttributeError)"

definition get_qualified_players ::
  "dataframe option \<Rightarrow> world \<Rightarrow> (py_error + pyrecord list) \<times> world" where
  "get_qualified_players fetched w =
     (let (data, w') = get_data False fetched w
      in (over_response (\<lambda>p. py_ge (dict_get p ''swings'' (Numeric (Num 0))) 300) data, w'))"

definition get_elite_players ::
  "dataframe option \<Rightarrow> world \<Rightarrow> (py_error + pyrecord list) \<times> world" where
  "get_elite_players fetched w =
     (let (data, w') = get_data False fetched w
      in (over_response (\<lambda>p. py_ge (dict_get p ''power_plus'' (Numeric (Num 0))) 110) data, w'))"

section \<open>Properties\<close>

subsection \<open>Rounding to the nearest double\<close>

lemma round_half_even_cases:
  "round_half_even x = \<lfloor>x\<rfloor> \<or> round_half_even x = \<lfloor>x\<rfloor> + 1"
  by (simp add: round_half_even_def Let_def)


lemma round_half_even_mono:
  assumes "x \<le> y"
  shows "round_half_even x \<le> round_half_even y"
proof (cases "\<lfloor>x\<rfloor> = \<lfloor>y\<rfloor>")
  case True
  with assms show ?thesis
    by (auto simp: round_half_even_def Let_def)
next
  case False
  with assms have "\<lfloor>x\<rfloor> + 1 \<le> \<lfloor>y\<rfloor>"
    using floor_mono [of x y] by linarith
  moreover have "round_half_even x \<le> \<lfloor>x\<rfloor> + 1"
    using round_half_even_cases [of x] by linarith
  moreover have "\<lfloor>y\<rfloor> \<le> round_half_even y"
    using round_half_even_cases [of y] by linarith
  ultimately show ?thesis by linarith
qed

lemma round_half_even_of_int [simp]: "round_half_even (of_int n) = n"
  by (simp add: round_half_even_def)

lemma pow2_pos [simp]: "0 < (2::rat) powi e"
  by (simp add: power_int_def)

lemma pow2_mono: "a \<le> b \<Longrightarrow> (2::rat) powi a \<le> 2 powi b"
  by (rule power_int_increasing) simp_all

lemma pow2_less_imp: "(2::rat) powi a < 2 powi b \<Longrightarrow> a < b"
  by (metis linorder_not_less pow2_mono)

lemma pow2_add: "(2::rat) powi (a + b) = 2 powi a * 2 powi b"
  by (simp add: power_int_add)


lemma bitlen_bounds_rat:
  assumes "0 < p"
  shows "2 powi (bitlen p - 1) \<le> (of_int p :: rat)" and "(of_int p :: rat) < 2 powi bitlen p"
proof -
  from bitlen_bounds [OF assms]
  have a: "2 ^ nat (bitlen p - 1) \<le> p" and b: "p < 2 ^ nat (bitlen p)" by simp_all
  have one: "1 \<le> bitlen p" using assms by (simp add: bitlen_alt_def)
  have "(of_int (2 ^ nat (bitlen p - 1)) :: rat) \<le> of_int p"
    using a by (simp only: of_int_le_iff)
  then have a': "(2::rat) ^ nat (bitlen p - 1) \<le> of_int p" by simp
  have "(of_int p :: rat) < of_int (2 ^ nat (bitlen p))"
    using b by (simp only: of_int_less_iff)
  then have b': "(of_int p :: rat) < 2 ^ nat (bitlen p)" by simp
  have e1: "(2::rat) powi (bitlen p - 1) = 2 ^ nat (bitlen p - 1)"
    using one by (simp add: power_int_def)
  have e2: "(2::rat) powi bitlen p = 2 ^ nat (bitlen p)"
    using one by (simp add: power_int_def)
  show "2 powi (bitlen p - 1) \<le> (of_int p :: rat)" using a' e1 by simp
  show "(of_int p :: rat) < 2 powi bitlen p" using b' e2 by simp
qed

lemma ilog2_bounds:
  assumes "0 < x"
  shows "2 powi ilog2 x \<le> x \<and> x < 2 powi (ilog2 x + 1)"
proof -
  obtain p q where pq: "quotient_of x = (p, q)" by (cases "quotient_of x")
  then have q: "0 < q" and x: "x = of_int p / of_int q"
    by (simp_all add: quotient_of_denom_pos quotient_of_div)
  with assms have p: "0 < p"
    by (simp add: zero_less_divide_iff)
  define d where "d = bitlen p - bitlen q"
  note bp = bitlen_bounds_rat [OF p]
  note bq = bitlen_bounds_rat [OF q]
  have q': "0 < (of_int q :: rat)" using q by simp
  have up: "x < 2 powi (d + 1)"
  proof -
    have "(2::rat) powi (d + 1) * 2 powi (bitlen q - 1) = 2 powi bitlen p"
      unfolding pow2_add [symmetric] by (simp add: d_def)
    with bp(2) have "(of_int p :: rat) < 2 powi (d + 1) * 2 powi (bitlen q - 1)"
      by simp
    also have "\<dots> \<le> 2 powi (d + 1) * of_int q"
      using bq(1) by (simp add: mult_left_mono)
    finally show ?thesis
      using q' by (simp add: x pos_divide_less_eq)
  qed
  have lo: "2 powi (d - 1) < x"
  proof -
    have "(2::rat) powi (d - 1) * of_int q < 2 powi (d - 1) * 2 powi bitlen q"
      using bq(2) by (simp add: mult_strict_left_mono)
    also have "\<dots> = 2 powi (bitlen p - 1)"
      unfolding pow2_add [symmetric] by (simp add: d_def)
    also have "\<dots> \<le> of_int p" by (rule bp(1))
    finally show ?thesis
      using q' by (simp add: x pos_less_divide_eq)
  qed
  have il: "ilog2 x = (if 2 powi d \<le> x then d else d - 1)"
    by (simp add: ilog2_def pq d_def Let_def)
  show ?thesis
  proof (cases "2 powi d \<le> x")
    case True
    with il up show ?thesis by simp
  next
    case False
    with il lo show ?thesis by simp
  qed
qed



lemma round_half_even_nonneg: "0 \<le> x \<Longrightarrow> 0 \<le> round_half_even x"
  using round_half_even_mono [of 0 x] round_half_even_of_int [of 0] by simp

lemma nearest_nonneg: "0 < x \<Longrightarrow> 0 \<le> nearest x"
  by (simp add: nearest_def round_half_even_nonneg)






lemma round_pos_cases:
  assumes "0 < x"
  shows "round_pos x = PInf \<or> (\<exists>v. 0 \<le> v \<and> round_pos x = Num v)"
  using nearest_nonneg [OF assms] by (simp add: round_pos_def)

lemma to_double_cases:
  "to_double x = PInf \<or> to_double x = NInf \<or> (\<exists>v. to_double x = Num v)"
  using round_pos_cases [of x] round_pos_cases [of "- x"]
  by (cases "0 < x"; cases "x = 0") (auto simp: to_double_def)





lemma to_double_not_missing [simp]: "to_double x \<noteq> PyNone" "to_double x \<noteq> NaN"
  using to_double_cases [of x] by auto

lemma float_le_to_double_bounds [simp]:
  "float_le NInf (to_double x)" "float_le (to_double x) PInf"
  using to_double_cases [of x] by auto

lemma fdiv_not_none [simp]: "fdiv a b \<noteq> PyNone"
  by (cases "(a, b)" rule: fdiv.cases) simp_all

lemma fmul_not_none [simp]: "fmul a b \<noteq> PyNone"
  by (cases "(a, b)" rule: fmul.cases) simp_all

lemma round1_not_none: "v \<noteq> PyNone \<Longrightarrow> round1 cls v \<noteq> PyNone"
  by (cases cls; cases v) (simp_all add: np_round1_def)







lemma ilog2_eqI:
  assumes "2 powi k \<le> x" and "x < 2 powi (k + 1)"
  shows "ilog2 x = k"
proof -
  have x: "0 < x" using assms(1) pow2_pos [of k] by linarith
  have "2 powi ilog2 x \<le> x" using ilog2_bounds [OF x] by simp
  with assms(2) have "(2::rat) powi ilog2 x < 2 powi (k + 1)" by linarith
  then have a: "ilog2 x < k + 1" by (rule pow2_less_imp)
  have "x < 2 powi (ilog2 x + 1)" using ilog2_bounds [OF x] by simp
  with assms(1) have "(2::rat) powi k < 2 powi (ilog2 x + 1)" by linarith
  then have "k < ilog2 x + 1" by (rule pow2_less_imp)
  with a show ?thesis by simp
qed

lemma round_half_even_eqI:
  assumes "of_int n - 1 / 2 < x" and "x < of_int n + 1 / 2"
  shows "round_half_even x = n"
proof (cases "of_int n \<le> x")
  case True
  with assms have "\<lfloor>x\<rfloor> = n" by (simp add: floor_unique)
  with assms show ?thesis by (simp add: round_half_even_def)
next
  case False
  with assms have f: "\<lfloor>x\<rfloor> = n - 1" by (simp add: floor_unique)
  from assms have "\<not> x - of_int (n - 1) < 1 / 2" "1 / 2 < x - of_int (n - 1)" by simp_all
  with f show ?thesis by (simp add: round_half_even_def)
qed

text \<open>
  A double is checked, not searched: given the significand \<open>m\<close> and the exponent
  \<open>e\<close> of the last bit, \<open>to_double x\<close> is \<open>m * 2 powi e\<close> when \<open>x\<close> lies in the binade of
  \<open>e\<close> and strictly within half a last bit of it.
\<close>

lemma round_half_even_tie_down:
  assumes "x = of_int n + 1 / 2" and "even n"
  shows "round_half_even x = n"
proof -
  have "\<lfloor>x\<rfloor> = n" unfolding assms(1) by (simp add: floor_unique)
  with assms show ?thesis by (simp add: round_half_even_def)
qed

lemma round_half_even_tie_up:
  assumes "x = of_int n + 1 / 2" and "odd n"
  shows "round_half_even x = n + 1"
proof -
  have "\<lfloor>x\<rfloor> = n" unfolding assms(1) by (simp add: floor_unique)
  with assms show ?thesis by (simp add: round_half_even_def)
qed

lemma round_pos_significand:
  assumes e: "- 1074 \<le> e"
    and lo: "2 powi (e + 52) \<le> x" and hi: "x < 2 powi (e + 53)"
    and r: "round_half_even (x / 2 powi e) = m"
    and fin: "of_int m * 2 powi e < overflow_bound"
  shows "round_pos x = Num (of_int m * 2 powi e)"
proof -
  have "e + 53 = e + 52 + 1" by simp
  with hi have "x < 2 powi (e + 52 + 1)" by simp
  with lo have "ilog2 x = e + 52" by (rule ilog2_eqI)
  with e have lb: "last_bit x = e" by (simp add: last_bit_def)
  from r have "nearest x = of_int m * 2 powi e"
    by (simp add: nearest_def lb)
  with fin show ?thesis by (simp add: round_pos_def)
qed

lemma to_double_significand:
  assumes "- 1074 \<le> e"
    and "2 powi (e + 52) \<le> x" and "x < 2 powi (e + 53)"
    and "round_half_even (x / 2 powi e) = m"
    and "of_int m * 2 powi e < overflow_bound"
  shows "to_double x = Num (of_int m * 2 powi e)"
proof -
  have "0 < x" using assms(2) pow2_pos [of "e + 52"] by linarith
  then show ?thesis
    using round_pos_significand [OF assms] by (simp add: to_double_def)
qed

lemma to_double_normal:
  assumes "- 1074 \<le> e"
    and "2 powi (e + 52) \<le> x" and "x < 2 powi (e + 53)"
    and below: "(2 * of_int m - 1) * 2 powi e < 2 * x"
    and above: "2 * x < (2 * of_int m + 1) * 2 powi e"
    and "of_int m * 2 powi e < overflow_bound"
  shows "to_double x = Num (of_int m * 2 powi e)"
proof -
  have p: "0 < (2::rat) powi e" by (rule pow2_pos)
  have "of_int m - 1 / 2 < x / 2 powi e"
    using below p by (simp add: pos_less_divide_eq field_simps)
  moreover have "x / 2 powi e < of_int m + 1 / 2"
    using above p by (simp add: pos_divide_less_eq field_simps)
  ultimately have "round_half_even (x / 2 powi e) = m"
    by (rule round_half_even_eqI)
  with assms show ?thesis by (intro to_double_significand)
qed

lemma to_double_tie_down:
  assumes "- 1074 \<le> e"
    and "2 powi (e + 52) \<le> x" and "x < 2 powi (e + 53)"
    and tie: "2 * x = (2 * of_int m + 1) * 2 powi e" and "even m"
    and "of_int m * 2 powi e < overflow_bound"
  shows "to_double x = Num (of_int m * 2 powi e)"
proof -
  have p: "0 < (2::rat) powi e" by (rule pow2_pos)
  have "x / 2 powi e = of_int m + 1 / 2"
    using tie p by (simp add: field_simps)
  then have "round_half_even (x / 2 powi e) = m"
    using \<open>even m\<close> by (rule round_half_even_tie_down)
  with assms show ?thesis by (intro to_double_significand)
qed

lemma to_double_tie_up:
  assumes "- 1074 \<le> e"
    and "2 powi (e + 52) \<le> x" and "x < 2 powi (e + 53)"
    and tie: "2 * x = (2 * of_int m + 1) * 2 powi e" and "odd m"
    and "of_int (m + 1) * 2 powi e < overflow_bound"
  shows "to_double x = Num (of_int (m + 1) * 2 powi e)"
proof -
  have p: "0 < (2::rat) powi e" by (rule pow2_pos)
  have "x / 2 powi e = of_int m + 1 / 2"
    using tie p by (simp add: field_simps)
  then have "round_half_even (x / 2 powi e) = m + 1"
    using \<open>odd m\<close> by (rule round_half_even_tie_up)
  with assms show ?thesis by (intro to_double_significand)
qed

lemma to_double_minus: "to_double (- x) = fneg (to_double x)"
proof -
  have "fneg (fneg v) = v" for v by (cases v) simp_all
  then show ?thesis by (simp add: to_double_def)
qed

lemma to_double_0 [simp]: "to_double 0 = Num 0"
  by (simp add: to_double_def)



lemma to_double_73_10:
  "to_double (73 / 10) = Num (8219069319951155 / 1125899906842624)"
  using to_double_normal [of "- 50" "73 / 10" 8219069319951155]
  by (simp add: overflow_bound_def)


lemma calculate_power_plus_value0:
  assumes "\<not> isna bat_speed" and "\<not> isna swing_length" and "swing_length \<noteq> Num 0"
  shows "calculate_power_plus cls bat_speed swing_length =
           round1 cls (fmul (fdiv (fdiv bat_speed swing_length) LEAGUE_AVG_EFFICIENCY) (Num 100))"
  using assms by (simp add: calculate_power_plus_def Let_def)

lemma calculate_power_plus_missing:
  "isna bs \<or> isna sl \<or> sl = Num 0 \<Longrightarrow> calculate_power_plus cls bs sl = PyNone"
  by (auto simp: calculate_power_plus_def)

subsection \<open>Checked values\<close>

text \<open>
  The doubles of the examples below, each checked from its significand and exponent.
\<close>

lemma to_double_normal_neg:
  assumes "- 1074 \<le> e"
    and "2 powi (e + 52) \<le> y" and "y < 2 powi (e + 53)"
    and "(2 * of_int m - 1) * 2 powi e < 2 * y"
    and "2 * y < (2 * of_int m + 1) * 2 powi e"
    and "of_int m * 2 powi e < overflow_bound"
    and "x = - y"
  shows "to_double x = Num (- (of_int m * 2 powi e))"
  unfolding assms(7) to_double_minus to_double_normal [OF assms(1-6)] by simp

lemma to_double_72:
  "to_double (72) = Num 72"
proof -
  have h: "to_double (72) = Num 72"
    using to_double_normal [of "- 46" "72" 5066549580791808]
    by (simp add: overflow_bound_def)
  show ?thesis by (rule h)
qed

lemma LEAGUE_AVG_BAT_SPEED_value: "LEAGUE_AVG_BAT_SPEED = Num 72"
  by (simp only: LEAGUE_AVG_BAT_SPEED_def to_double_72)

lemma LEAGUE_AVG_EFFICIENCY_value:
  "LEAGUE_AVG_EFFICIENCY = Num (2776191551118799 / 281474976710656)"
proof -
  have h: "fdiv (Num 72) (Num (8219069319951155 / 1125899906842624)) = Num (2776191551118799 / 281474976710656)"
    using to_double_normal [of "- 49" "81064793292668928 / 8219069319951155" 5552383102237598]
    by (simp add: overflow_bound_def)
  show ?thesis
    by (simp only: LEAGUE_AVG_EFFICIENCY_def LEAGUE_AVG_BAT_SPEED_value
        LEAGUE_AVG_SWING_LENGTH_def to_double_73_10 h)
qed


lemma power_plus_75_builtin:
  "calculate_power_plus builtin_float (Num 75) (to_double (73 / 10)) = to_double (521 / 5)"
proof -
  have x1: "fdiv (Num 75) (Num (8219069319951155 / 1125899906842624)) = Num (5783732398164165 / 562949953421312)"
    using to_double_normal [of "- 49" "16888498602639360 / 1643813863990231" 5783732398164165]
    by (simp add: overflow_bound_def)
  have x2: "fdiv (Num (5783732398164165 / 562949953421312)) (Num (2776191551118799 / 281474976710656)) = Num (4691249611844267 / 4503599627370496)"
    using to_double_normal [of "- 52" "5783732398164165 / 5552383102237598" 4691249611844267]
    by (simp add: overflow_bound_def)
  have x3: "fmul (Num (4691249611844267 / 4503599627370496)) (Num 100) = Num (7330077518506667 / 70368744177664)"
    using to_double_normal [of "- 46" "117281240296106675 / 1125899906842624" 7330077518506667]
    by (simp add: overflow_bound_def)
  have r: "round_half_even ((7330077518506667 / 70368744177664) * 10) = 1042"
    using round_half_even_eqI [of "1042" "36650387592533335 / 35184372088832"]
    by simp
  have y: "to_double (of_int 1042 / 10) = Num (7332423143312589 / 70368744177664)"
    using to_double_normal [of "- 46" "521 / 5" 7332423143312589]
    by (simp add: overflow_bound_def)
  have x4: "round1 builtin_float (Num (7330077518506667 / 70368744177664)) = Num (7332423143312589 / 70368744177664)"
    by (simp only: round1.simps py_round1.simps r y)
  have t: "to_double (521 / 5) = Num (7332423143312589 / 70368744177664)"
    using to_double_normal [of "- 46" "521 / 5" 7332423143312589]
    by (simp add: overflow_bound_def)
  have "calculate_power_plus builtin_float (Num 75) (to_double (73 / 10)) = calculate_power_plus builtin_float (Num 75) (Num (8219069319951155 / 1125899906842624))"
    by (simp only: to_double_73_10)
  also have "\<dots> = round1 builtin_float (fmul (fdiv (fdiv (Num 75) (Num (8219069319951155 / 1125899906842624))) LEAGUE_AVG_EFFICIENCY) (Num 100))"
    by (rule calculate_power_plus_value0) simp_all
  also have "\<dots> = Num (7332423143312589 / 70368744177664)"
    by (simp only: x1 LEAGUE_AVG_EFFICIENCY_value x2 x3 x4)
  also have "\<dots> = to_double (521 / 5)"
    by (simp only: t)
  finally show ?thesis .
qed

lemma power_plus_85_builtin:
  "calculate_power_plus builtin_float (Num 85) (to_double (73 / 10)) = to_double (1181 / 10)"
proof -
  have x1: "fdiv (Num 85) (Num (8219069319951155 / 1125899906842624)) = Num (3277448358959693 / 281474976710656)"
    using to_double_normal [of "- 49" "19140298416324608 / 1643813863990231" 6554896717919386]
    by (simp add: overflow_bound_def)
  have x2: "fdiv (Num (3277448358959693 / 281474976710656)) (Num (2776191551118799 / 281474976710656)) = Num (664593695011271 / 562949953421312)"
    using to_double_normal [of "- 52" "3277448358959693 / 2776191551118799" 5316749560090168]
    by (simp add: overflow_bound_def)
  have x3: "fmul (Num (664593695011271 / 562949953421312)) (Num 100) = Num (1038427648455111 / 8796093022208)"
    using to_double_tie_up [of "- 46" "16614842375281775 / 140737488355328" 8307421187640887]
    by (simp add: overflow_bound_def)
  have r: "round_half_even ((1038427648455111 / 8796093022208) * 10) = 1181"
    using round_half_even_eqI [of "1181" "5192138242275555 / 4398046511104"]
    by simp
  have y: "to_double (of_int 1181 / 10) = Num (4155274343691059 / 35184372088832)"
    using to_double_normal [of "- 46" "1181 / 10" 8310548687382118]
    by (simp add: overflow_bound_def)
  have x4: "round1 builtin_float (Num (1038427648455111 / 8796093022208)) = Num (4155274343691059 / 35184372088832)"
    by (simp only: round1.simps py_round1.simps r y)
  have t: "to_double (1181 / 10) = Num (4155274343691059 / 35184372088832)"
    using to_double_normal [of "- 46" "1181 / 10" 8310548687382118]
    by (simp add: overflow_bound_def)
  have "calculate_power_plus builtin_float (Num 85) (to_double (73 / 10)) = calculate_power_plus builtin_float (Num 85) (Num (8219069319951155 / 1125899906842624))"
    by (simp only: to_double_73_10)
  also have "\<dots> = round1 builtin_float (fmul (fdiv (fdiv (Num 85) (Num (8219069319951155 / 1125899906842624))) LEAGUE_AVG_EFFICIENCY) (Num 100))"
    by (rule calculate_power_plus_value0) simp_all
  also have "\<dots> = Num (4155274343691059 / 35184372088832)"
    by (simp only: x1 LEAGUE_AVG_EFFICIENCY_value x2 x3 x4)
  also have "\<dots> = to_double (1181 / 10)"
    by (simp only: t)
  finally show ?thesis .
qed

lemma power_plus_neg_builtin:
  "calculate_power_plus builtin_float (Num 72) (to_double (- (73 / 10))) = Num (- 100)"
proof -
  have in1: "to_double (- (73 / 10)) = Num (- (8219069319951155 / 1125899906842624))"
    using to_double_normal_neg [of "- 50" "73 / 10" 8219069319951155 "- (73 / 10)"]
    by (simp add: overflow_bound_def)
  have x1: "fdiv (Num 72) (Num (- (8219069319951155 / 1125899906842624))) = Num (- (2776191551118799 / 281474976710656))"
    using to_double_normal_neg [of "- 49" "81064793292668928 / 8219069319951155" 5552383102237598 "- (81064793292668928 / 8219069319951155)"]
    by (simp add: overflow_bound_def)
  have x2: "fdiv (Num (- (2776191551118799 / 281474976710656))) (Num (2776191551118799 / 281474976710656)) = Num (- 1)"
    using to_double_normal_neg [of "- 52" "1" 4503599627370496 "- 1"]
    by (simp add: overflow_bound_def)
  have x3: "fmul (Num (- 1)) (Num 100) = Num (- 100)"
    using to_double_normal_neg [of "- 46" "100" 7036874417766400 "- 100"]
    by (simp add: overflow_bound_def)
  have r: "round_half_even ((- 100) * 10) = (- 1000)"
    using round_half_even_eqI [of "- 1000" "- 1000"]
    by simp
  have y: "to_double (of_int (- 1000) / 10) = Num (- 100)"
    using to_double_normal_neg [of "- 46" "100" 7036874417766400 "- 100"]
    by (simp add: overflow_bound_def)
  have x4: "round1 builtin_float (Num (- 100)) = Num (- 100)"
    by (simp only: round1.simps py_round1.simps r y)
  have "calculate_power_plus builtin_float (Num 72) (to_double (- (73 / 10))) = calculate_power_plus builtin_float (Num 72) (Num (- (8219069319951155 / 1125899906842624)))"
    by (simp only: in1)
  also have "\<dots> = round1 builtin_float (fmul (fdiv (fdiv (Num 72) (Num (- (8219069319951155 / 1125899906842624)))) LEAGUE_AVG_EFFICIENCY) (Num 100))"
    by (rule calculate_power_plus_value0) simp_all
  also have "\<dots> = Num (- 100)"
    by (simp only: x1 LEAGUE_AVG_EFFICIENCY_value x2 x3 x4)
  finally show ?thesis .
qed

lemma power_plus_72_numpy:
  "calculate_power_plus numpy_float64 (Num 72) (to_double (73 / 10)) = Num 100"
proof -
  have x1: "fdiv (Num 72) (Num (8219069319951155 / 1125899906842624)) = Num (2776191551118799 / 281474976710656)"
    using to_double_normal [of "- 49" "81064793292668928 / 8219069319951155" 5552383102237598]
    by (simp add: overflow_bound_def)
  have x2: "fdiv (Num (2776191551118799 / 281474976710656)) (Num (2776191551118799 / 281474976710656)) = Num 1"
    using to_double_normal [of "- 52" "1" 4503599627370496]
    by (simp add: overflow_bound_def)
  have x3: "fmul (Num 1) (Num 100) = Num 100"
    using to_double_normal [of "- 46" "100" 7036874417766400]
    by (simp add: overflow_bound_def)
  have x5: "fmul (Num 100) (Num 10) = Num 1000"
    using to_double_normal [of "- 43" "1000" 8796093022208000]
    by (simp add: overflow_bound_def)
  have r: "round_half_even 1000 = 1000"
    using round_half_even_eqI [of "1000" "1000"]
    by simp
  have y: "fdiv (Num (of_int 1000)) (Num 10) = Num 100"
    using to_double_normal [of "- 46" "100" 7036874417766400]
    by (simp add: overflow_bound_def)
  have x4: "round1 numpy_float64 (Num 100) = Num 100"
    by (simp only: round1.simps np_round1_def x5 rint.simps r y)
  have "calculate_power_plus numpy_float64 (Num 72) (to_double (73 / 10)) = calculate_power_plus numpy_float64 (Num 72) (Num (8219069319951155 / 1125899906842624))"
    by (simp only: to_double_73_10)
  also have "\<dots> = round1 numpy_float64 (fmul (fdiv (fdiv (Num 72) (Num (8219069319951155 / 1125899906842624))) LEAGUE_AVG_EFFICIENCY) (Num 100))"
    by (rule calculate_power_plus_value0) simp_all
  also have "\<dots> = Num 100"
    by (simp only: x1 LEAGUE_AVG_EFFICIENCY_value x2 x3 x4)
  finally show ?thesis .
qed

lemma power_plus_75_numpy:
  "calculate_power_plus numpy_float64 (Num 75) (to_double (73 / 10)) = to_double (521 / 5)"
proof -
  have x1: "fdiv (Num 75) (Num (8219069319951155 / 1125899906842624)) = Num (5783732398164165 / 562949953421312)"
    using to_double_normal [of "- 49" "16888498602639360 / 1643813863990231" 5783732398164165]
    by (simp add: overflow_bound_def)
  have x2: "fdiv (Num (5783732398164165 / 562949953421312)) (Num (2776191551118799 / 281474976710656)) = Num (4691249611844267 / 4503599627370496)"
    using to_double_normal [of "- 52" "5783732398164165 / 5552383102237598" 4691249611844267]
    by (simp add: overflow_bound_def)
  have x3: "fmul (Num (4691249611844267 / 4503599627370496)) (Num 100) = Num (7330077518506667 / 70368744177664)"
    using to_double_normal [of "- 46" "117281240296106675 / 1125899906842624" 7330077518506667]
    by (simp add: overflow_bound_def)
  have x5: "fmul (Num (7330077518506667 / 70368744177664)) (Num 10) = Num (4581298449066667 / 4398046511104)"
    using to_double_normal [of "- 42" "36650387592533335 / 35184372088832" 4581298449066667]
    by (simp add: overflow_bound_def)
  have r: "round_half_even (4581298449066667 / 4398046511104) = 1042"
    using round_half_even_eqI [of "1042" "4581298449066667 / 4398046511104"]
    by simp
  have y: "fdiv (Num (of_int 1042)) (Num 10) = Num (7332423143312589 / 70368744177664)"
    using to_double_normal [of "- 46" "521 / 5" 7332423143312589]
    by (simp add: overflow_bound_def)
  have x4: "round1 numpy_float64 (Num (7330077518506667 / 70368744177664)) = Num (7332423143312589 / 70368744177664)"
    by (simp only: round1.simps np_round1_def x5 rint.simps r y)
  have t: "to_double (521 / 5) = Num (7332423143312589 / 70368744177664)"
    using to_double_normal [of "- 46" "521 / 5" 7332423143312589]
    by (simp add: overflow_bound_def)
  have "calculate_power_plus numpy_float64 (Num 75) (to_double (73 / 10)) = calculate_power_plus numpy_float64 (Num 75) (Num (8219069319951155 / 1125899906842624))"
    by (simp only: to_double_73_10)
  also have "\<dots> = round1 numpy_float64 (fmul (fdiv (fdiv (Num 75) (Num (8219069319951155 / 1125899906842624))) LEAGUE_AVG_EFFICIENCY) (Num 100))"
    by (rule calculate_power_plus_value0) simp_all
  also have "\<dots> = Num (7332423143312589 / 70368744177664)"
    by (simp only: x1 LEAGUE_AVG_EFFICIENCY_value x2 x3 x4)
  also have "\<dots> = to_double (521 / 5)"
    by (simp only: t)
  finally show ?thesis .
qed

lemma power_plus_85_numpy:
  "calculate_power_plus numpy_float64 (Num 85) (to_double (73 / 10)) = to_double (1181 / 10)"
proof -
  have x1: "fdiv (Num 85) (Num (8219069319951155 / 1125899906842624)) = Num (3277448358959693 / 281474976710656)"
    using to_double_normal [of "- 49" "19140298416324608 / 1643813863990231" 6554896717919386]
    by (simp add: overflow_bound_def)
  have x2: "fdiv (Num (3277448358959693 / 281474976710656)) (Num (2776191551118799 / 281474976710656)) = Num (664593695011271 / 562949953421312)"
    using to_double_normal [of "- 52" "3277448358959693 / 2776191551118799" 5316749560090168]
    by (simp add: overflow_bound_def)
  have x3: "fmul (Num (664593695011271 / 562949953421312)) (Num 100) = Num (1038427648455111 / 8796093022208)"
    using to_double_tie_up [of "- 46" "16614842375281775 / 140737488355328" 8307421187640887]
    by (simp add: overflow_bound_def)
  have x5: "fmul (Num (1038427648455111 / 8796093022208)) (Num 10) = Num (5192138242275555 / 4398046511104)"
    using to_double_normal [of "- 42" "5192138242275555 / 4398046511104" 5192138242275555]
    by (simp add: overflow_bound_def)
  have r: "round_half_even (5192138242275555 / 4398046511104) = 1181"
    using round_half_even_eqI [of "1181" "5192138242275555 / 4398046511104"]
    by simp
  have y: "fdiv (Num (of_int 1181)) (Num 10) = Num (4155274343691059 / 35184372088832)"
    using to_double_normal [of "- 46" "1181 / 10" 8310548687382118]
    by (simp add: overflow_bound_def)
  have x4: "round1 numpy_float64 (Num (1038427648455111 / 8796093022208)) = Num (4155274343691059 / 35184372088832)"
    by (simp only: round1.simps np_round1_def x5 rint.simps r y)
  have t: "to_double (1181 / 10) = Num (4155274343691059 / 35184372088832)"
    using to_double_normal [of "- 46" "1181 / 10" 8310548687382118]
    by (simp add: overflow_bound_def)
  have "calculate_power_plus numpy_float64 (Num 85) (to_double (73 / 10)) = calculate_power_plus numpy_float64 (Num 85) (Num (8219069319951155 / 1125899906842624))"
    by (simp only: to_double_73_10)
  also have "\<dots> = round1 numpy_float64 (fmul (fdiv (fdiv (Num 85) (Num (8219069319951155 / 1125899906842624))) LEAGUE_AVG_EFFICIENCY) (Num 100))"
    by (rule calculate_power_plus_value0) simp_all
  also have "\<dots> = Num (4155274343691059 / 35184372088832)"
    by (simp only: x1 LEAGUE_AVG_EFFICIENCY_value x2 x3 x4)
  also have "\<dots> = to_double (1181 / 10)"
    by (simp only: t)
  finally show ?thesis .
qed

lemma power_plus_neg_numpy:
  "calculate_power_plus numpy_float64 (Num 72) (to_double (- (73 / 10))) = Num (- 100)"
proof -
  have in1: "to_double (- (73 / 10)) = Num (- (8219069319951155 / 1125899906842624))"
    using to_double_normal_neg [of "- 50" "73 / 10" 8219069319951155 "- (73 / 10)"]
    by (simp add: overflow_bound_def)
  have x1: "fdiv (Num 72) (Num (- (8219069319951155 / 1125899906842624))) = Num (- (2776191551118799 / 281474976710656))"
    using to_double_normal_neg [of "- 49" "81064793292668928 / 8219069319951155" 5552383102237598 "- (81064793292668928 / 8219069319951155)"]
    by (simp add: overflow_bound_def)
  have x2: "fdiv (Num (- (2776191551118799 / 281474976710656))) (Num (2776191551118799 / 281474976710656)) = Num (- 1)"
    using to_double_normal_neg [of "- 52" "1" 4503599627370496 "- 1"]
    by (simp add: overflow_bound_def)
  have x3: "fmul (Num (- 1)) (Num 100) = Num (- 100)"
    using to_double_normal_neg [of "- 46" "100" 7036874417766400 "- 100"]
    by (simp add: overflow_bound_def)
  have x5: "fmul (Num (- 100)) (Num 10) = Num (- 1000)"
    using to_double_normal_neg [of "- 43" "1000" 8796093022208000 "- 1000"]
    by (simp add: overflow_bound_def)
  have r: "round_half_even (- 1000) = (- 1000)"
    using round_half_even_eqI [of "- 1000" "- 1000"]
    by simp
  have y: "fdiv (Num (of_int (- 1000))) (Num 10) = Num (- 100)"
    using to_double_normal_neg [of "- 46" "100" 7036874417766400 "- 100"]
    by (simp add: overflow_bound_def)
  have x4: "round1 numpy_float64 (Num (- 100)) = Num (- 100)"
    by (simp only: round1.simps np_round1_def x5 rint.simps r y)
  have "calculate_power_plus numpy_float64 (Num 72) (to_double (- (73 / 10))) = calculate_power_plus numpy_float64 (Num 72) (Num (- (8219069319951155 / 1125899906842624)))"
    by (simp only: in1)
  also have "\<dots> = round1 numpy_float64 (fmul (fdiv (fdiv (Num 72) (Num (- (8219069319951155 / 1125899906842624)))) LEAGUE_AVG_EFFICIENCY) (Num 100))"
    by (rule calculate_power_plus_value0) simp_all
  also have "\<dots> = Num (- 100)"
    by (simp only: x1 LEAGUE_AVG_EFFICIENCY_value x2 x3 x4)
  finally show ?thesis .
qed

lemma power_plus_71964_builtin:
  "calculate_power_plus builtin_float (to_double (71964 / 1000)) (to_double (73 / 10)) = to_double (999 / 10)"
proof -
  have in1: "to_double (71964 / 1000) = Num (1266004076500353 / 17592186044416)"
    using to_double_normal [of "- 46" "17991 / 250" 5064016306001412]
    by (simp add: overflow_bound_def)
  have x1: "fdiv (Num (1266004076500353 / 17592186044416)) (Num (8219069319951155 / 1125899906842624)) = Num (5549606910686479 / 562949953421312)"
    using to_double_normal [of "- 49" "81024260896022592 / 8219069319951155" 5549606910686479]
    by (simp add: overflow_bound_def)
  have x2: "fdiv (Num (5549606910686479 / 562949953421312)) (Num (2776191551118799 / 281474976710656)) = Num (9002695655113621 / 9007199254740992)"
    using to_double_normal [of "- 53" "5549606910686479 / 5552383102237598" 9002695655113621]
    by (simp add: overflow_bound_def)
  have x3: "fmul (Num (9002695655113621 / 9007199254740992)) (Num 100) = Num (1758338995139379 / 17592186044416)"
    using to_double_normal [of "- 46" "225067391377840525 / 2251799813685248" 7033355980557516]
    by (simp add: overflow_bound_def)
  have r: "round_half_even ((1758338995139379 / 17592186044416) * 10) = 999"
    using round_half_even_eqI [of "999" "8791694975696895 / 8796093022208"]
    by simp
  have y: "to_double (of_int 999 / 10) = Num (3514918771674317 / 35184372088832)"
    using to_double_normal [of "- 46" "999 / 10" 7029837543348634]
    by (simp add: overflow_bound_def)
  have x4: "round1 builtin_float (Num (1758338995139379 / 17592186044416)) = Num (3514918771674317 / 35184372088832)"
    by (simp only: round1.simps py_round1.simps r y)
  have t: "to_double (999 / 10) = Num (3514918771674317 / 35184372088832)"
    using to_double_normal [of "- 46" "999 / 10" 7029837543348634]
    by (simp add: overflow_bound_def)
  have "calculate_power_plus builtin_float (to_double (71964 / 1000)) (to_double (73 / 10)) = calculate_power_plus builtin_float (Num (1266004076500353 / 17592186044416)) (Num (8219069319951155 / 1125899906842624))"
    by (simp only: to_double_73_10 in1)
  also have "\<dots> = round1 builtin_float (fmul (fdiv (fdiv (Num (1266004076500353 / 17592186044416)) (Num (8219069319951155 / 1125899906842624))) LEAGUE_AVG_EFFICIENCY) (Num 100))"
    by (rule calculate_power_plus_value0) simp_all
  also have "\<dots> = Num (3514918771674317 / 35184372088832)"
    by (simp only: x1 LEAGUE_AVG_EFFICIENCY_value x2 x3 x4)
  also have "\<dots> = to_double (999 / 10)"
    by (simp only: t)
  finally show ?thesis .
qed

lemma power_plus_79164_builtin:
  "calculate_power_plus builtin_float (to_double (79164 / 1000)) (to_double (73 / 10)) = to_double (1099 / 10)"
proof -
  have in1: "to_double (79164 / 1000) = Num (5570671264080593 / 70368744177664)"
    using to_double_normal [of "- 46" "19791 / 250" 5570671264080593]
    by (simp add: overflow_bound_def)
  have x1: "fdiv (Num (5570671264080593 / 70368744177664)) (Num (8219069319951155 / 1125899906842624)) = Num (6104845220910239 / 562949953421312)"
    using to_double_normal [of "- 49" "89130740225289488 / 8219069319951155" 6104845220910239]
    by (simp add: overflow_bound_def)
  have x2: "fdiv (Num (6104845220910239 / 562949953421312)) (Num (2776191551118799 / 281474976710656)) = Num (1237926947573465 / 1125899906842624)"
    using to_double_normal [of "- 52" "6104845220910239 / 5552383102237598" 4951707790293860]
    by (simp add: overflow_bound_def)
  have x3: "fmul (Num (1237926947573465 / 1125899906842624)) (Num 100) = Num (1934260855583539 / 17592186044416)"
    using to_double_normal [of "- 46" "30948173689336625 / 281474976710656" 7737043422334156]
    by (simp add: overflow_bound_def)
  have r: "round_half_even ((1934260855583539 / 17592186044416) * 10) = 1099"
    using round_half_even_eqI [of "1099" "9671304277917695 / 8796093022208"]
    by simp
  have y: "to_double (of_int 1099 / 10) = Num (3866762492562637 / 35184372088832)"
    using to_double_normal [of "- 46" "1099 / 10" 7733524985125274]
    by (simp add: overflow_bound_def)
  have x4: "round1 builtin_float (Num (1934260855583539 / 17592186044416)) = Num (3866762492562637 / 35184372088832)"
    by (simp only: round1.simps py_round1.simps r y)
  have t: "to_double (1099 / 10) = Num (3866762492562637 / 35184372088832)"
    using to_double_normal [of "- 46" "1099 / 10" 7733524985125274]
    by (simp add: overflow_bound_def)
  have "calculate_power_plus builtin_float (to_double (79164 / 1000)) (to_double (73 / 10)) = calculate_power_plus builtin_float (Num (5570671264080593 / 70368744177664)) (Num (8219069319951155 / 1125899906842624))"
    by (simp only: to_double_73_10 in1)
  also have "\<dots> = round1 builtin_float (fmul (fdiv (fdiv (Num (5570671264080593 / 70368744177664)) (Num (8219069319951155 / 1125899906842624))) LEAGUE_AVG_EFFICIENCY) (Num 100))"
    by (rule calculate_power_plus_value0) simp_all
  also have "\<dots> = Num (3866762492562637 / 35184372088832)"
    by (simp only: x1 LEAGUE_AVG_EFFICIENCY_value x2 x3 x4)
  also have "\<dots> = to_double (1099 / 10)"
    by (simp only: t)
  finally show ?thesis .
qed

lemma power_plus_79164_numpy:
  "calculate_power_plus numpy_float64 (to_double (79164 / 1000)) (to_double (73 / 10)) = Num 110"
proof -
  have in1: "to_double (79164 / 1000) = Num (5570671264080593 / 70368744177664)"
    using to_double_normal [of "- 46" "19791 / 250" 5570671264080593]
    by (simp add: overflow_bound_def)
  have x1: "fdiv (Num (5570671264080593 / 70368744177664)) (Num (8219069319951155 / 1125899906842624)) = Num (6104845220910239 / 562949953421312)"
    using to_double_normal [of "- 49" "89130740225289488 / 8219069319951155" 6104845220910239]
    by (simp add: overflow_bound_def)
  have x2: "fdiv (Num (6104845220910239 / 562949953421312)) (Num (2776191551118799 / 281474976710656)) = Num (1237926947573465 / 1125899906842624)"
    using to_double_normal [of "- 52" "6104845220910239 / 5552383102237598" 4951707790293860]
    by (simp add: overflow_bound_def)
  have x3: "fmul (Num (1237926947573465 / 1125899906842624)) (Num 100) = Num (1934260855583539 / 17592186044416)"
    using to_double_normal [of "- 46" "30948173689336625 / 281474976710656" 7737043422334156]
    by (simp add: overflow_bound_def)
  have x5: "fmul (Num (1934260855583539 / 17592186044416)) (Num 10) = Num (2199 / 2)"
    using to_double_tie_up [of "- 42" "9671304277917695 / 8796093022208" 4835652138958847]
    by (simp add: overflow_bound_def)
  have r: "round_half_even (2199 / 2) = 1100"
    using round_half_even_tie_up [of "2199 / 2" "1099"]
    by simp
  have y: "fdiv (Num (of_int 1100)) (Num 10) = Num 110"
    using to_double_normal [of "- 46" "110" 7740561859543040]
    by (simp add: overflow_bound_def)
  have x4: "round1 numpy_float64 (Num (1934260855583539 / 17592186044416)) = Num 110"
    by (simp only: round1.simps np_round1_def x5 rint.simps r y)
  have "calculate_power_plus numpy_float64 (to_double (79164 / 1000)) (to_double (73 / 10)) = calculate_power_plus numpy_float64 (Num (5570671264080593 / 70368744177664)) (Num (8219069319951155 / 1125899906842624))"
    by (simp only: to_double_73_10 in1)
  also have "\<dots> = round1 numpy_float64 (fmul (fdiv (fdiv (Num (5570671264080593 / 70368744177664)) (Num (8219069319951155 / 1125899906842624))) LEAGUE_AVG_EFFICIENCY) (Num 100))"
    by (rule calculate_power_plus_value0) simp_all
  also have "\<dots> = Num 110"
    by (simp only: x1 LEAGUE_AVG_EFFICIENCY_value x2 x3 x4)
  finally show ?thesis .
qed

subsection \<open>The metric\<close>


text \<open>
  Claim C2, as the code has it. \<^verbatim>\<open>calculate_power_plus\<close> returns a float exactly when
  neither input is \<open>None\<close> or NaN and \<open>swing_length\<close> is not zero (the guard is
  \<^verbatim>\<open>swing_length == 0\<close>, not \<^verbatim>\<open>swing_length > 0\<close>): the float is then
  \<^verbatim>\<open>round((bat_speed / swing_length) / (72.0 / 7.3) * 100, 1)\<close>, every operation in
  double precision; in every other case the result is \<open>None\<close>.
\<close>

theorem calculate_power_plus_defined_iff:
  "(calculate_power_plus cls bat_speed swing_length \<noteq> PyNone) =
     (\<not> isna bat_speed \<and> \<not> isna swing_length \<and> swing_length \<noteq> Num 0) \<and>
   calculate_power_plus cls bat_speed swing_length =
     (if isna bat_speed \<or> isna swing_length \<or> swing_length = Num 0 then PyNone
      else round1 cls
             (fmul (fdiv (fdiv bat_speed swing_length) (fdiv (Num 72) (to_double (73 / 10))))
                   (Num 100)))"
proof -
  have eff: "LEAGUE_AVG_EFFICIENCY = fdiv (Num 72) (to_double (73 / 10))"
    by (simp only: LEAGUE_AVG_EFFICIENCY_def LEAGUE_AVG_BAT_SPEED_value LEAGUE_AVG_SWING_LENGTH_def)
  have val: "calculate_power_plus cls bat_speed swing_length =
     (if isna bat_speed \<or> isna swing_length \<or> swing_length = Num 0 then PyNone
      else round1 cls
             (fmul (fdiv (fdiv bat_speed swing_length) (fdiv (Num 72) (to_double (73 / 10))))
                   (Num 100)))"
    unfolding eff [symmetric] by (auto simp: calculate_power_plus_def Let_def)
  have "round1 cls (fmul (fdiv (fdiv bat_speed swing_length) LEAGUE_AVG_EFFICIENCY) (Num 100))
          \<noteq> PyNone"
    by (rule round1_not_none) simp
  then have "(calculate_power_plus cls bat_speed swing_length \<noteq> PyNone) =
     (\<not> isna bat_speed \<and> \<not> isna swing_length \<and> swing_length \<noteq> Num 0)"
    by (auto simp: calculate_power_plus_def Let_def)
  with val show ?thesis by blast
qed

text \<open>
  The values at \<open>75\<close> and \<open>7.3\<close>; at two inputs whose exact quotient is a tie
  (\<open>99.95\<close> and \<open>109.95\<close>), where the doubles decide and the two classes of number
  disagree; and at a zero length and at missing inputs.
\<close>

theorem calculate_power_plus_defined_iff_witness:
  "calculate_power_plus builtin_float (Num 75) (to_double (73 / 10)) = to_double (521 / 5) \<and>
   calculate_power_plus builtin_float (to_double (71964 / 1000)) (to_double (73 / 10))
     = to_double (999 / 10) \<and>
   calculate_power_plus builtin_float (to_double (79164 / 1000)) (to_double (73 / 10))
     = to_double (1099 / 10) \<and>
   calculate_power_plus numpy_float64 (to_double (79164 / 1000)) (to_double (73 / 10))
     = Num 110 \<and>
   calculate_power_plus builtin_float (Num 75) (Num 0) = PyNone \<and>
   calculate_power_plus builtin_float NaN (to_double (73 / 10)) = PyNone \<and>
   calculate_power_plus numpy_float64 (Num 75) PyNone = PyNone"
proof -
  have "calculate_power_plus builtin_float (Num 75) (Num 0) = PyNone"
    using calculate_power_plus_defined_iff [of builtin_float "Num 75" "Num 0"] by simp
  moreover have "calculate_power_plus builtin_float NaN (to_double (73 / 10)) = PyNone"
    using calculate_power_plus_defined_iff [of builtin_float NaN "to_double (73 / 10)"] by simp
  moreover have "calculate_power_plus numpy_float64 (Num 75) PyNone = PyNone"
    using calculate_power_plus_defined_iff [of numpy_float64 "Num 75" PyNone] by simp
  ultimately show ?thesis
    using power_plus_75_builtin power_plus_71964_builtin power_plus_79164_builtin
      power_plus_79164_numpy
    by blast
qed

text \<open>
  Claim C2 as stated fails for a negative \<open>swing_length\<close>: the length \<open>-7.3\<close> is not
  greater than zero, and the result is the number \<open>-100.0\<close>, not \<open>None\<close>.
\<close>

theorem calculate_power_plus_negative_length:
  "to_double (- (73 / 10)) = Num (- (8219069319951155 / 1125899906842624)) \<and>
   \<not> (0 :: rat) < - (8219069319951155 / 1125899906842624) \<and>
   calculate_power_plus builtin_float (Num 72) (to_double (- (73 / 10))) = Num (- 100) \<and>
   calculate_power_plus numpy_float64 (Num 72) (to_double (- (73 / 10))) = Num (- 100)"
proof -
  have "to_double (- (73 / 10)) = Num (- (8219069319951155 / 1125899906842624))"
    unfolding to_double_minus to_double_73_10 by simp
  with power_plus_neg_builtin power_plus_neg_numpy show ?thesis by simp
qed




lemma to_double_1181_10:
  "to_double (1181 / 10) = Num (4155274343691059 / 35184372088832)"
proof -
  have h: "to_double (1181 / 10) = Num (4155274343691059 / 35184372088832)"
    using to_double_normal [of "- 46" "1181 / 10" 8310548687382118]
    by (simp add: overflow_bound_def)
  show ?thesis by (rule h)
qed

lemma isna_to_double [simp]: "\<not> isna (to_double x)"
  using to_double_cases [of x] by auto

lemma to_numeric_to_double [simp]: "to_numeric (Numeric (to_double x)) = to_double x"
  using to_double_cases [of x] by auto

lemma nan_to_none_to_double [simp]: "nan_to_none (Numeric (to_double x)) = Numeric (to_double x)"
  using to_double_cases [of x] by auto

subsection \<open>Grades\<close>

text \<open>
  Claim C3. \<^verbatim>\<open>get_grade\<close> tests the thresholds from the highest down, each inclusive
  on its lower bound: \<open>110.0\<close> is Elite; \<open>109.9\<close> and \<open>105.0\<close> are Above Average;
  \<open>104.9\<close> and \<open>95.0\<close> are Average; \<open>94.9\<close> and \<open>90.0\<close> are Below Average;
  \<open>89.9\<close> is Poor; \<open>None\<close> and NaN give \<open>N/A\<close>. Every number falls in exactly the
  band of the half-open interval that holds it.
\<close>

theorem get_grade_bands:
  "get_grade (Num 110) = ''Elite'' \<and>
   get_grade (Num (1099 / 10)) = ''Above Average'' \<and>
   get_grade (Num 105) = ''Above Average'' \<and>
   get_grade (Num (1049 / 10)) = ''Average'' \<and>
   get_grade (Num 95) = ''Average'' \<and>
   get_grade (Num (949 / 10)) = ''Below Average'' \<and>
   get_grade (Num 90) = ''Below Average'' \<and>
   get_grade (Num (899 / 10)) = ''Poor'' \<and>
   get_grade PyNone = ''N/A'' \<and>
   get_grade NaN = ''N/A'' \<and>
   (get_grade (Num p) = ''Elite'') = (110 \<le> p) \<and>
   (get_grade (Num p) = ''Above Average'') = (105 \<le> p \<and> p < 110) \<and>
   (get_grade (Num p) = ''Average'') = (95 \<le> p \<and> p < 105) \<and>
   (get_grade (Num p) = ''Below Average'') = (90 \<le> p \<and> p < 95) \<and>
   (get_grade (Num p) = ''Poor'') = (p < 90) \<and>
   get_grade (Num p) \<noteq> ''N/A''"
  by (simp add: get_grade_def)

theorem get_grade_bands_witness:
  "get_grade (Num (521 / 5)) = ''Average'' \<and> get_grade (Num 120) = ''Elite''"
  using get_grade_bands [of "521 / 5"] get_grade_bands [of 120] by simp

subsection \<open>Cache freshness\<close>

lemma load_cached_data_Some_iff:
  "(load_cached_data w = Some d) = (\<exists>t. cache w = Entry t d \<and> now w - t < CACHE_DURATION)"
  by (cases "cache w") (auto simp: load_cached_data_def)

text \<open>
  Claim C8. \<^verbatim>\<open>load_cached_data\<close> returns the persisted data if and only if the cache
  file is a usable entry and \<open>now - timestamp\<close> is strictly less than six hours. It
  returns nothing when the file is missing or unusable, and when the entry is as old as
  the TTL or older: at TTL plus one second and at exactly the TTL nothing is returned, one
  microsecond earlier the data is.
\<close>

theorem load_cached_data_fresh_iff:
  "(load_cached_data w = Some d) =
     (\<exists>t. cache w = Entry t d \<and> now w - t < 6 * 3600 * 1000000) \<and>
   (load_cached_data w = None) =
     (cache w = NoFile \<or> cache w = Unusable \<or>
      (\<exists>t d'. cache w = Entry t d' \<and> 6 * 3600 * 1000000 \<le> now w - t)) \<and>
   load_cached_data \<lparr>cache = Entry t d, now = t + 6 * 3600 * 1000000 + 1000000, on_write = b\<rparr> = None \<and>
   load_cached_data \<lparr>cache = Entry t d, now = t + 6 * 3600 * 1000000, on_write = b\<rparr> = None \<and>
   load_cached_data \<lparr>cache = Entry t d, now = t + 6 * 3600 * 1000000 - 1, on_write = b\<rparr> = Some d"
proof -
  have 1: "(load_cached_data w = Some d) =
     (\<exists>t. cache w = Entry t d \<and> now w - t < 6 * 3600 * 1000000)"
    by (cases "cache w") (auto simp: load_cached_data_def CACHE_DURATION_def)
  have 2: "(load_cached_data w = None) =
     (cache w = NoFile \<or> cache w = Unusable \<or>
      (\<exists>t d'. cache w = Entry t d' \<and> 6 * 3600 * 1000000 \<le> now w - t))"
    by (cases "cache w") (auto simp: load_cached_data_def CACHE_DURATION_def)
  have 3: "load_cached_data \<lparr>cache = Entry t d, now = t + 6 * 3600 * 1000000 + 1000000, on_write = b\<rparr> = None"
    "load_cached_data \<lparr>cache = Entry t d, now = t + 6 * 3600 * 1000000, on_write = b\<rparr> = None"
    "load_cached_data \<lparr>cache = Entry t d, now = t + 6 * 3600 * 1000000 - 1, on_write = b\<rparr> = Some d"
    by (simp_all add: load_cached_data_def CACHE_DURATION_def)
  from 1 2 3 show ?thesis by blast
qed

theorem load_cached_data_fresh_iff_witness:
  "load_cached_data \<lparr>cache = Entry 0 [[(''player_name'', Text ''A'')]], now = 3600000000, on_write = Written\<rparr>
     = Some [[(''player_name'', Text ''A'')]] \<and>
   load_cached_data \<lparr>cache = Entry 0 [[(''player_name'', Text ''A'')]], now = 21601000000, on_write = Written\<rparr>
     = None \<and>
   load_cached_data \<lparr>cache = Unusable, now = 3600000000, on_write = Written\<rparr> = None"
  using load_cached_data_fresh_iff
    [of "\<lparr>cache = Entry 0 [[(''player_name'', Text ''A'')]], now = 3600000000, on_write = Written\<rparr>"
        "[[(''player_name'', Text ''A'')]]" 0 Written]
    load_cached_data_fresh_iff
    [of "\<lparr>cache = Unusable, now = 3600000000, on_write = Written\<rparr>" "[]" 0 Written]
    load_cached_data_fresh_iff
    [of "\<lparr>cache = Unusable, now = 3600000000, on_write = Written\<rparr>" "[[(''player_name'', Text ''A'')]]" 0 Written]
  by simp

subsection \<open>Column resolution and processing\<close>

lemma first_or_none_filter_Some:
  "(first_or_none (filter P xs) = Some c) =
     (\<exists>pre post. xs = pre @ c # post \<and> P c \<and> (\<forall>x \<in> set pre. \<not> P x))"
proof
  assume "first_or_none (filter P xs) = Some c"
  then obtain ys where "filter P xs = c # ys"
    by (auto simp: first_or_none_def split: list.splits)
  then show "\<exists>pre post. xs = pre @ c # post \<and> P c \<and> (\<forall>x \<in> set pre. \<not> P x)"
    unfolding filter_eq_Cons_iff by blast
next
  assume "\<exists>pre post. xs = pre @ c # post \<and> P c \<and> (\<forall>x \<in> set pre. \<not> P x)"
  then obtain pre post where xs: "xs = pre @ c # post" and c: "P c"
    and pre: "\<forall>x \<in> set pre. \<not> P x"
    by blast
  from pre have "filter P pre = []" by (simp add: filter_empty_conv)
  with xs c show "first_or_none (filter P xs) = Some c"
    by (simp add: first_or_none_def)
qed

lemma first_or_none_filter_None:
  "(first_or_none (filter P xs) = None) = (\<forall>x \<in> set xs. \<not> P x)"
proof -
  have "(first_or_none (filter P xs) = None) = (filter P xs = [])"
    by (simp add: first_or_none_def split: list.splits)
  then show ?thesis by (simp add: filter_empty_conv)
qed

lemma not_sublist_empty_bat: "\<not> sublist ''bat_speed'' (lower [])"
  by (simp add: lower_def)

lemma not_sublist_empty_len: "\<not> sublist ''swing_length'' (lower [])"
  by (simp add: lower_def)

lemma speed_col_nonempty: "first_or_none (speed_cols cols) = Some sc \<Longrightarrow> sc \<noteq> []"
  unfolding speed_cols_def first_or_none_filter_Some using not_sublist_empty_bat by blast

lemma length_col_nonempty: "first_or_none (length_cols cols) = Some lc \<Longrightarrow> lc \<noteq> []"
  unfolding length_cols_def first_or_none_filter_Some using not_sublist_empty_len by blast

lemma length_col_not_bat_speed:
  "first_or_none (length_cols cols) = Some lc \<Longrightarrow> lc \<noteq> ''bat_speed''"
proof
  assume a: "first_or_none (length_cols cols) = Some lc" and b: "lc = ''bat_speed''"
  from a have "sublist ''swing_length'' (lower lc)"
    unfolding length_cols_def first_or_none_filter_Some by blast
  moreover have "\<not> sublist ''swing_length'' (lower ''bat_speed'')"
    by code_simp
  ultimately show False using b by simp
qed

lemma process_data_resolved:
  assumes "first_or_none (speed_cols (columns df)) = Some sc"
    and "first_or_none (length_cols (columns df)) = Some lc"
  shows "process_data df = clean_and_calculate sc lc df"
  using assms speed_col_nonempty [OF assms(1)] length_col_nonempty [OF assms(2)]
  by (simp add: process_data_def not_col_def)

lemma process_data_unresolved:
  assumes "first_or_none (speed_cols (columns df)) = None
           \<or> first_or_none (length_cols (columns df)) = None"
  shows "process_data df = empty_frame"
  using assms by (auto simp: process_data_def not_col_def Let_def)

lemma to_records_empty_frame: "to_records empty_frame = []"
  by (simp add: to_records_def empty_frame_def)

lemma cell_of_update:
  "cell_of (AList.update k v r) k' = (if k' = k then v else cell_of r k')"
  by (simp add: cell_of_def update_conv')

lemma to_numeric_idem: "to_numeric (Numeric (to_numeric c)) = to_numeric c"
  by (cases c rule: to_numeric.cases) simp_all

lemma rows_clean_and_calculate:
  assumes "lc \<noteq> ''bat_speed''"
  shows "rows (clean_and_calculate sc lc df) =
     map (\<lambda>r. AList.update ''power_plus''
                 (Numeric (calculate_power_plus (numbers df)
                  (to_numeric (cell_of r sc)) (to_numeric (cell_of r lc))))
                 (AList.update ''swing_length'' (Numeric (to_numeric (cell_of r lc)))
                    (AList.update ''bat_speed'' (Numeric (to_numeric (cell_of r sc))) r)))
         (filter (\<lambda>r. \<not> cell_isna (cell_of r sc) \<and> \<not> cell_isna (cell_of r lc)) (rows df))"
  using assms
  by (simp add: clean_and_calculate_def Let_def setitem_def dropna_def cell_of_update
      to_numeric_idem o_def)

lemma to_records_process_data:
  assumes sc: "first_or_none (speed_cols (columns df)) = Some sc"
    and lc: "first_or_none (length_cols (columns df)) = Some lc"
  shows "to_records (process_data df) =
     map (\<lambda>r. map (\<lambda>(c, v). (c, nan_to_none v))
            (AList.update ''power_plus''
               (Numeric (calculate_power_plus (numbers df)
                  (to_numeric (cell_of r sc)) (to_numeric (cell_of r lc))))
               (AList.update ''swing_length'' (Numeric (to_numeric (cell_of r lc)))
                  (AList.update ''bat_speed'' (Numeric (to_numeric (cell_of r sc))) r))))
         (filter (\<lambda>r. \<not> cell_isna (cell_of r sc) \<and> \<not> cell_isna (cell_of r lc)) (rows df))"
  by (simp add: process_data_resolved [OF sc lc]
      rows_clean_and_calculate [OF length_col_not_bat_speed [OF lc]] to_records_def o_def)

lemma columns_clean_and_calculate:
  "set (columns (clean_and_calculate sc lc df))
     = set (columns df) \<union> {''bat_speed'', ''swing_length'', ''power_plus''}"
  by (auto simp: clean_and_calculate_def Let_def setitem_def dropna_def)

lemma map_of_nan_to_none:
  "map_of (map (\<lambda>(c, v). (c, nan_to_none v)) r) k = map_option nan_to_none (map_of r k)"
  by (simp add: map_of_map)

lemma resolve_examples:
  "first_or_none (speed_cols [''name'', ''avg_bat_speed'', ''swing_length'']) = Some ''avg_bat_speed''"
  "first_or_none (length_cols [''name'', ''avg_bat_speed'', ''swing_length'']) = Some ''swing_length''"
  "first_or_none (speed_cols [''player_name'', ''swings'', ''avg_bat_speed'', ''swing_length''])
     = Some ''avg_bat_speed''"
  "first_or_none (length_cols [''player_name'', ''swings'', ''avg_bat_speed'', ''swing_length''])
     = Some ''swing_length''"
  "first_or_none (speed_cols [''Player'', ''Avg_Bat_Speed'', ''BAT_SPEED_max'', ''Swing_Length''])
     = Some ''Avg_Bat_Speed''"
  "first_or_none (length_cols [''Player'', ''Avg_Bat_Speed'', ''BAT_SPEED_max'', ''Swing_Length''])
     = Some ''Swing_Length''"
  by code_simp+

text \<open>
  Claim C6. The bat-speed column \<^verbatim>\<open>process_data\<close> selects is the first column, in
  source order, whose lowercased name contains \<open>bat_speed\<close>; the swing-length column
  is, independently, the first whose lowercased name contains \<open>swing_length\<close>. With
  both found, the table is processed with exactly these two columns. When either substring
  matches no column the result is the empty table, with no record at all. On the columns
  \<open>bat_speed_mph\<close>, \<open>avg_bat_speed\<close>, \<open>swing_length_ft\<close> the selection is
  \<open>bat_speed_mph\<close> and \<open>swing_length_ft\<close>.
\<close>

theorem process_data_resolves_first_match:
  "(first_or_none (speed_cols cols) = Some c) =
     (\<exists>pre post. cols = pre @ c # post \<and> sublist ''bat_speed'' (lower c) \<and>
        (\<forall>x \<in> set pre. \<not> sublist ''bat_speed'' (lower x))) \<and>
   (first_or_none (length_cols cols) = Some c') =
     (\<exists>pre post. cols = pre @ c' # post \<and> sublist ''swing_length'' (lower c') \<and>
        (\<forall>x \<in> set pre. \<not> sublist ''swing_length'' (lower x))) \<and>
   (first_or_none (speed_cols (columns df)) = Some sc \<and>
    first_or_none (length_cols (columns df)) = Some lc \<longrightarrow>
      process_data df = clean_and_calculate sc lc df) \<and>
   ((\<forall>x \<in> set (columns df). \<not> sublist ''bat_speed'' (lower x)) \<or>
    (\<forall>x \<in> set (columns df). \<not> sublist ''swing_length'' (lower x)) \<longrightarrow>
      process_data df = empty_frame \<and> to_records (process_data df) = []) \<and>
   first_or_none (speed_cols [''bat_speed_mph'', ''avg_bat_speed'', ''swing_length_ft''])
     = Some ''bat_speed_mph'' \<and>
   first_or_none (length_cols [''bat_speed_mph'', ''avg_bat_speed'', ''swing_length_ft''])
     = Some ''swing_length_ft''"
proof -
  have 1: "(first_or_none (speed_cols cols) = Some c) =
     (\<exists>pre post. cols = pre @ c # post \<and> sublist ''bat_speed'' (lower c) \<and>
        (\<forall>x \<in> set pre. \<not> sublist ''bat_speed'' (lower x)))"
    unfolding speed_cols_def by (rule first_or_none_filter_Some)
  have 2: "(first_or_none (length_cols cols) = Some c') =
     (\<exists>pre post. cols = pre @ c' # post \<and> sublist ''swing_length'' (lower c') \<and>
        (\<forall>x \<in> set pre. \<not> sublist ''swing_length'' (lower x)))"
    unfolding length_cols_def by (rule first_or_none_filter_Some)
  have 3: "first_or_none (speed_cols (columns df)) = Some sc \<and>
    first_or_none (length_cols (columns df)) = Some lc \<longrightarrow>
      process_data df = clean_and_calculate sc lc df"
    using process_data_resolved by blast
  have 4: "(\<forall>x \<in> set (columns df). \<not> sublist ''bat_speed'' (lower x)) \<or>
    (\<forall>x \<in> set (columns df). \<not> sublist ''swing_length'' (lower x)) \<longrightarrow>
      process_data df = empty_frame \<and> to_records (process_data df) = []"
  proof
    assume "(\<forall>x \<in> set (columns df). \<not> sublist ''bat_speed'' (lower x)) \<or>
      (\<forall>x \<in> set (columns df). \<not> sublist ''swing_length'' (lower x))"
    then have "first_or_none (speed_cols (columns df)) = None
           \<or> first_or_none (length_cols (columns df)) = None"
      unfolding speed_cols_def length_cols_def first_or_none_filter_None .
    then have "process_data df = empty_frame"
      by (rule process_data_unresolved)
    then show "process_data df = empty_frame \<and> to_records (process_data df) = []"
      by (simp add: to_records_empty_frame)
  qed
  have 5: "first_or_none (speed_cols [''bat_speed_mph'', ''avg_bat_speed'', ''swing_length_ft''])
     = Some ''bat_speed_mph''"
    by code_simp
  have 6: "first_or_none (length_cols [''bat_speed_mph'', ''avg_bat_speed'', ''swing_length_ft''])
     = Some ''swing_length_ft''"
    by code_simp
  from 1 2 3 4 5 6 show ?thesis by blast
qed

theorem process_data_resolves_first_match_witness:
  "process_data \<lparr>columns = [''Player'', ''Avg_Bat_Speed'', ''BAT_SPEED_max'', ''Swing_Length''],
                 rows = [[(''Player'', Text ''A''), (''Avg_Bat_Speed'', Numeric (Num 75)),
                          (''BAT_SPEED_max'', Numeric (Num 80)),
                          (''Swing_Length'', Numeric (to_double (73 / 10)))]],
      numbers = builtin_float\<rparr>
     = clean_and_calculate ''Avg_Bat_Speed'' ''Swing_Length''
         \<lparr>columns = [''Player'', ''Avg_Bat_Speed'', ''BAT_SPEED_max'', ''Swing_Length''],
          rows = [[(''Player'', Text ''A''), (''Avg_Bat_Speed'', Numeric (Num 75)),
                   (''BAT_SPEED_max'', Numeric (Num 80)),
                   (''Swing_Length'', Numeric (to_double (73 / 10)))]],
      numbers = builtin_float\<rparr> \<and>
   process_data \<lparr>columns = [''player'', ''bat_speed''],
                 rows = [[(''player'', Text ''A''), (''bat_speed'', Numeric (Num 75))]],
      numbers = builtin_float\<rparr>
     = empty_frame"
proof -
  let ?df = "\<lparr>columns = [''Player'', ''Avg_Bat_Speed'', ''BAT_SPEED_max'', ''Swing_Length''],
               rows = [[(''Player'', Text ''A''), (''Avg_Bat_Speed'', Numeric (Num 75)),
                        (''BAT_SPEED_max'', Numeric (Num 80)),
                        (''Swing_Length'', Numeric (to_double (73 / 10)))]],
      numbers = builtin_float\<rparr>"
  let ?bad = "\<lparr>columns = [''player'', ''bat_speed''],
                rows = [[(''player'', Text ''A''), (''bat_speed'', Numeric (Num 75))]],
      numbers = builtin_float\<rparr>"
  have a: "first_or_none (speed_cols (columns ?df)) = Some ''Avg_Bat_Speed''"
    by (simp add: resolve_examples)
  have b: "first_or_none (length_cols (columns ?df)) = Some ''Swing_Length''"
    by (simp add: resolve_examples)
  have c: "\<forall>x \<in> set (columns ?bad). \<not> sublist ''swing_length'' (lower x)"
    by code_simp
  from a b process_data_resolves_first_match [of "[]" "[]" "[]" ?df "''Avg_Bat_Speed''" "''Swing_Length''"]
  have "process_data ?df = clean_and_calculate ''Avg_Bat_Speed'' ''Swing_Length'' ?df"
    by blast
  moreover from c process_data_resolves_first_match [of "[]" "[]" "[]" ?bad "[]" "[]"]
  have "process_data ?bad = empty_frame"
    by blast
  ultimately show ?thesis by blast
qed

text \<open>
  Claim C4, as the code has it. \<^verbatim>\<open>process_data\<close> removes (\<^verbatim>\<open>dropna\<close>) every source
  row whose cell in the resolved bat-speed or swing-length column is missing. The records
  of the result are made, in source order, from exactly the rows with both cells present:
  each keeps its fields and gets \<open>bat_speed\<close>, \<open>swing_length\<close> and \<open>power_plus\<close>,
  a cell that is present but not a number giving a null metric.
\<close>

theorem process_data_drops_missing_rows:
  assumes "first_or_none (speed_cols (columns df)) = Some sc"
    and "first_or_none (length_cols (columns df)) = Some lc"
  shows "to_records (process_data df) =
     map (\<lambda>r. map (\<lambda>(c, v). (c, nan_to_none v))
            (AList.update ''power_plus''
               (Numeric (calculate_power_plus (numbers df)
                  (to_numeric (cell_of r sc)) (to_numeric (cell_of r lc))))
               (AList.update ''swing_length'' (Numeric (to_numeric (cell_of r lc)))
                  (AList.update ''bat_speed'' (Numeric (to_numeric (cell_of r sc))) r))))
         (filter (\<lambda>r. \<not> cell_isna (cell_of r sc) \<and> \<not> cell_isna (cell_of r lc)) (rows df)) \<and>
     length (to_records (process_data df)) =
       length (filter (\<lambda>r. \<not> cell_isna (cell_of r sc) \<and> \<not> cell_isna (cell_of r lc)) (rows df))"
  using to_records_process_data [OF assms] by simp

theorem process_data_drops_missing_rows_witness:
  "to_records (process_data
     \<lparr>columns = [''name'', ''avg_bat_speed'', ''swing_length''],
      rows = [[(''name'', Text ''A''), (''avg_bat_speed'', Numeric (Num 75)),
               (''swing_length'', Numeric (to_double (73 / 10)))],
              [(''name'', Text ''B''), (''avg_bat_speed'', Numeric NaN),
               (''swing_length'', Numeric (Num 7))],
              [(''name'', Text ''C''), (''avg_bat_speed'', Text ''fast''),
               (''swing_length'', Numeric (Num 7))]],
      numbers = builtin_float\<rparr>) =
   [[(''name'', Text ''A''), (''avg_bat_speed'', Numeric (Num 75)),
     (''swing_length'', Numeric (to_double (73 / 10))), (''bat_speed'', Numeric (Num 75)),
     (''power_plus'', Numeric (to_double (521 / 5)))],
    [(''name'', Text ''C''), (''avg_bat_speed'', Text ''fast''),
     (''swing_length'', Numeric (Num 7)), (''bat_speed'', Numeric PyNone),
     (''power_plus'', Numeric PyNone)]]"
proof -
  let ?df = "\<lparr>columns = [''name'', ''avg_bat_speed'', ''swing_length''],
      rows = [[(''name'', Text ''A''), (''avg_bat_speed'', Numeric (Num 75)),
               (''swing_length'', Numeric (to_double (73 / 10)))],
              [(''name'', Text ''B''), (''avg_bat_speed'', Numeric NaN),
               (''swing_length'', Numeric (Num 7))],
              [(''name'', Text ''C''), (''avg_bat_speed'', Text ''fast''),
               (''swing_length'', Numeric (Num 7))]],
      numbers = builtin_float\<rparr>"
  have a: "first_or_none (speed_cols (columns ?df)) = Some ''avg_bat_speed''"
    by (simp add: resolve_examples)
  have b: "first_or_none (length_cols (columns ?df)) = Some ''swing_length''"
    by (simp add: resolve_examples)
  show ?thesis
    using process_data_drops_missing_rows [OF a b]
    by (simp add: cell_of_def calculate_power_plus_missing power_plus_75_builtin)
qed

text \<open>
  Claim C4 as stated fails: of the two rows of this table the second has a missing bat
  speed, and the result holds the record of the first row only.
\<close>

theorem process_data_missing_row_removed:
  "first_or_none (speed_cols [''name'', ''avg_bat_speed'', ''swing_length'']) = Some ''avg_bat_speed'' \<and>
   cell_isna (cell_of [(''name'', Text ''B''), (''avg_bat_speed'', Numeric NaN),
                       (''swing_length'', Numeric (Num 7))] ''avg_bat_speed'') \<and>
   to_records (process_data
     \<lparr>columns = [''name'', ''avg_bat_speed'', ''swing_length''],
      rows = [[(''name'', Text ''A''), (''avg_bat_speed'', Numeric (Num 75)),
               (''swing_length'', Numeric (to_double (73 / 10)))],
              [(''name'', Text ''B''), (''avg_bat_speed'', Numeric NaN),
               (''swing_length'', Numeric (Num 7))]],
      numbers = builtin_float\<rparr>) =
   [[(''name'', Text ''A''), (''avg_bat_speed'', Numeric (Num 75)),
     (''swing_length'', Numeric (to_double (73 / 10))), (''bat_speed'', Numeric (Num 75)),
     (''power_plus'', Numeric (to_double (521 / 5)))]]"
proof -
  let ?df = "\<lparr>columns = [''name'', ''avg_bat_speed'', ''swing_length''],
      rows = [[(''name'', Text ''A''), (''avg_bat_speed'', Numeric (Num 75)),
               (''swing_length'', Numeric (to_double (73 / 10)))],
              [(''name'', Text ''B''), (''avg_bat_speed'', Numeric NaN),
               (''swing_length'', Numeric (Num 7))]],
      numbers = builtin_float\<rparr>"
  have a: "first_or_none (speed_cols (columns ?df)) = Some ''avg_bat_speed''"
    by (simp add: resolve_examples)
  have b: "first_or_none (length_cols (columns ?df)) = Some ''swing_length''"
    by (simp add: resolve_examples)
  have c: "cell_isna (cell_of [(''name'', Text ''B''), (''avg_bat_speed'', Numeric NaN),
                       (''swing_length'', Numeric (Num 7))] ''avg_bat_speed'')"
    by (simp add: cell_of_def)
  have "to_records (process_data ?df) =
   [[(''name'', Text ''A''), (''avg_bat_speed'', Numeric (Num 75)),
     (''swing_length'', Numeric (to_double (73 / 10))), (''bat_speed'', Numeric (Num 75)),
     (''power_plus'', Numeric (to_double (521 / 5)))]]"
    unfolding to_records_process_data [OF a b]
    by (simp add: cell_of_def power_plus_75_builtin)
  with a c show ?thesis by simp
qed

text \<open>
  Claim C5, as the code has it. \<^verbatim>\<open>process_data\<close> computes no grade: the columns of
  its result are the source's columns and \<open>bat_speed\<close>, \<open>swing_length\<close>,
  \<open>power_plus\<close>, and every record carries these three fields. Every other field of a
  record, \<open>grade\<close> among them, is the field of the record's own source row (NaN turned
  into \<open>None\<close>), record by record in source order over the rows kept: a record has a
  \<open>grade\<close> only when its source row had one, and it is that source cell, not a label
  derived from \<open>power_plus\<close>.
\<close>

theorem process_data_adds_no_grade:
  "set (columns (process_data df))
     \<subseteq> set (columns df) \<union> {''bat_speed'', ''swing_length'', ''power_plus''} \<and>
   (''grade'' \<in> set (columns (process_data df)) \<longrightarrow> ''grade'' \<in> set (columns df)) \<and>
   (\<forall>p \<in> set (to_records (process_data df)).
      map_of p ''bat_speed'' \<noteq> None \<and> map_of p ''swing_length'' \<noteq> None \<and>
      map_of p ''power_plus'' \<noteq> None) \<and>
   (k \<notin> {''bat_speed'', ''swing_length'', ''power_plus''} \<longrightarrow>
      map (\<lambda>p. map_of p k) (to_records (process_data df)) =
        (case (first_or_none (speed_cols (columns df)), first_or_none (length_cols (columns df))) of
           (Some sc, Some lc) \<Rightarrow>
             map (\<lambda>r. map_option nan_to_none (map_of r k))
               (filter (\<lambda>r. \<not> cell_isna (cell_of r sc) \<and> \<not> cell_isna (cell_of r lc)) (rows df))
         | _ \<Rightarrow> [])) \<and>
   map (\<lambda>p. map_of p ''grade'') (to_records (process_data df)) =
     (case (first_or_none (speed_cols (columns df)), first_or_none (length_cols (columns df))) of
        (Some sc, Some lc) \<Rightarrow>
          map (\<lambda>r. map_option nan_to_none (map_of r ''grade''))
            (filter (\<lambda>r. \<not> cell_isna (cell_of r sc) \<and> \<not> cell_isna (cell_of r lc)) (rows df))
      | _ \<Rightarrow> [])"
proof (cases "first_or_none (speed_cols (columns df)) = None
              \<or> first_or_none (length_cols (columns df)) = None")
  case True
  then have "process_data df = empty_frame"
    by (rule process_data_unresolved)
  then have recs: "to_records (process_data df) = []" and cols: "columns (process_data df) = []"
    by (simp_all add: to_records_def empty_frame_def)
  have none: "(case (first_or_none (speed_cols (columns df)), first_or_none (length_cols (columns df))) of
           (Some sc, Some lc) \<Rightarrow> f sc lc | _ \<Rightarrow> []) = []" for f :: "string \<Rightarrow> string \<Rightarrow> 'b list"
    using True by (auto split: option.splits)
  show ?thesis
    unfolding recs cols none by simp
next
  case False
  then obtain sc lc where sc: "first_or_none (speed_cols (columns df)) = Some sc"
    and lc: "first_or_none (length_cols (columns df)) = Some lc"
    by auto
  note recs = to_records_process_data [OF sc lc]
  have cols: "set (columns (process_data df))
     = set (columns df) \<union> {''bat_speed'', ''swing_length'', ''power_plus''}"
    by (simp only: process_data_resolved [OF sc lc] columns_clean_and_calculate)
  have fields: "map_of p ''bat_speed'' \<noteq> None \<and> map_of p ''swing_length'' \<noteq> None \<and>
      map_of p ''power_plus'' \<noteq> None"
    if "p \<in> set (to_records (process_data df))" for p
    using that unfolding recs by (auto simp: map_of_nan_to_none update_conv')
  have other: "map (\<lambda>p. map_of p k') (to_records (process_data df)) =
      map (\<lambda>r. map_option nan_to_none (map_of r k'))
        (filter (\<lambda>r. \<not> cell_isna (cell_of r sc) \<and> \<not> cell_isna (cell_of r lc)) (rows df))"
    if "k' \<notin> {''bat_speed'', ''swing_length'', ''power_plus''}" for k'
    using that unfolding recs by (simp add: map_of_nan_to_none update_conv' o_def)
  have grade: "''grade'' \<notin> {''bat_speed'', ''swing_length'', ''power_plus''}"
    by simp
  from cols fields other other [OF grade] show ?thesis
    by (auto simp: sc lc)
qed

theorem process_data_adds_no_grade_witness:
  "to_records (process_data
     \<lparr>columns = [''name'', ''avg_bat_speed'', ''swing_length''],
      rows = [[(''name'', Text ''A''), (''avg_bat_speed'', Numeric (Num 85)),
               (''swing_length'', Numeric (to_double (73 / 10)))]],
      numbers = builtin_float\<rparr>) =
   [[(''name'', Text ''A''), (''avg_bat_speed'', Numeric (Num 85)),
     (''swing_length'', Numeric (to_double (73 / 10))), (''bat_speed'', Numeric (Num 85)),
     (''power_plus'', Numeric (to_double (1181 / 10)))]] \<and>
   map (\<lambda>p. map_of p ''grade'') (to_records (process_data
     \<lparr>columns = [''name'', ''avg_bat_speed'', ''swing_length''],
      rows = [[(''name'', Text ''A''), (''avg_bat_speed'', Numeric (Num 85)),
               (''swing_length'', Numeric (to_double (73 / 10)))]],
      numbers = builtin_float\<rparr>)) = [None]"
proof -
  let ?df = "\<lparr>columns = [''name'', ''avg_bat_speed'', ''swing_length''],
      rows = [[(''name'', Text ''A''), (''avg_bat_speed'', Numeric (Num 85)),
               (''swing_length'', Numeric (to_double (73 / 10)))]],
      numbers = builtin_float\<rparr>"
  have a: "first_or_none (speed_cols (columns ?df)) = Some ''avg_bat_speed''"
    by (simp add: resolve_examples)
  have b: "first_or_none (length_cols (columns ?df)) = Some ''swing_length''"
    by (simp add: resolve_examples)
  have recs: "to_records (process_data ?df) =
   [[(''name'', Text ''A''), (''avg_bat_speed'', Numeric (Num 85)),
     (''swing_length'', Numeric (to_double (73 / 10))), (''bat_speed'', Numeric (Num 85)),
     (''power_plus'', Numeric (to_double (1181 / 10)))]]"
    unfolding to_records_process_data [OF a b]
    by (simp add: cell_of_def power_plus_85_builtin)
  note grade = process_data_adds_no_grade [of ?df "''grade''",
      THEN conjunct2, THEN conjunct2, THEN conjunct2, THEN conjunct2]
  have "map (\<lambda>p. map_of p ''grade'') (to_records (process_data ?df)) = [None]"
    unfolding grade a b by (simp add: cell_of_def)
  with recs show ?thesis by blast
qed

text \<open>
  Claim C5 as stated fails: the record made from a row with bat speed \<open>85\<close> and swing
  length \<open>7.3\<close> has \<open>power_plus = 118.1\<close>, whose label would be Elite, and no
  \<open>grade\<close> field.
\<close>

theorem process_data_record_without_grade:
  "map (\<lambda>p. (map_of p ''power_plus'', map_of p ''grade''))
     (to_records (process_data
        \<lparr>columns = [''name'', ''avg_bat_speed'', ''swing_length''],
         rows = [[(''name'', Text ''A''), (''avg_bat_speed'', Numeric (Num 85)),
                  (''swing_length'', Numeric (to_double (73 / 10)))]],
         numbers = builtin_float\<rparr>))
     = [(Some (Numeric (to_double (1181 / 10))), None)] \<and>
   to_double (1181 / 10) = Num (4155274343691059 / 35184372088832) \<and>
   get_grade (Num (4155274343691059 / 35184372088832)) = ''Elite''"
proof -
  let ?df = "\<lparr>columns = [''name'', ''avg_bat_speed'', ''swing_length''],
      rows = [[(''name'', Text ''A''), (''avg_bat_speed'', Numeric (Num 85)),
               (''swing_length'', Numeric (to_double (73 / 10)))]],
      numbers = builtin_float\<rparr>"
  have a: "first_or_none (speed_cols (columns ?df)) = Some ''avg_bat_speed''"
    by (simp add: resolve_examples)
  have b: "first_or_none (length_cols (columns ?df)) = Some ''swing_length''"
    by (simp add: resolve_examples)
  have "map (\<lambda>p. (map_of p ''power_plus'', map_of p ''grade'')) (to_records (process_data ?df))
     = [(Some (Numeric (to_double (1181 / 10))), None)]"
    unfolding to_records_process_data [OF a b]
    by (simp add: cell_of_def power_plus_85_builtin)
  moreover have "get_grade (Num (4155274343691059 / 35184372088832)) = ''Elite''"
    by (simp add: get_grade_def)
  ultimately show ?thesis
    using to_double_1181_10 by blast
qed

subsection \<open>Refresh orchestrator\<close>

text \<open>
  After a failed fetch (no table, or an empty one) \<^verbatim>\<open>get_data\<close> answers from
  \<^verbatim>\<open>load_cached_data\<close> alone, so the data it can return is that of a fresh,
  non-empty entry and no other; a stale entry gives the error dictionary. When the call
  is not forced and the first read of the cache served nothing, the second read serves
  nothing either.
\<close>

lemma get_data_fetch_failed:
  assumes "fetched = None \<or> (\<exists>df. fetched = Some df \<and> df_empty df)"
  shows "get_data force_refresh fetched w = (cached_or_error (load_cached_data w), w)"
  using assms
  by (auto simp: get_data_def fetch_and_store_def cached_or_error_def split: option.splits)

lemma cached_or_error_Data:
  "(cached_or_error c = Data d) = (c = Some d \<and> d \<noteq> [])"
  by (auto simp: cached_or_error_def split: option.splits)

lemma get_data_fetch_failed_only_fresh:
  assumes "fetched = None \<or> (\<exists>df. fetched = Some df \<and> df_empty df)"
  shows "(get_data force_refresh fetched w = (Data d, w')) =
           (w' = w \<and> d \<noteq> [] \<and> (\<exists>t. cache w = Entry t d \<and> now w - t < CACHE_DURATION))"
  unfolding get_data_fetch_failed [OF assms]
  by (auto simp: cached_or_error_Data load_cached_data_Some_iff)

lemma get_data_stale_entry:
  assumes "cache w = Entry t d" and "CACHE_DURATION \<le> now w - t"
    and "fetched = None \<or> (\<exists>df. fetched = Some df \<and> df_empty df)"
  shows "get_data force_refresh fetched w = (ErrorDict, w)"
  unfolding get_data_fetch_failed [OF assms(3)] using assms(1,2)
  by (simp add: load_cached_data_def cached_or_error_def)

lemma get_data_unforced_fetch_failed:
  assumes "fetched = None \<or> (\<exists>df. fetched = Some df \<and> df_empty df)"
    and "load_cached_data w = None \<or> load_cached_data w = Some []"
  shows "get_data False fetched w = (ErrorDict, w)"
  unfolding get_data_fetch_failed [OF assms(1)] using assms(2)
  by (auto simp: cached_or_error_def)

text \<open>
  Claim C1 at a stale entry. The cache holds an entry written six hours and one second
  ago and the fetch fails: \<^verbatim>\<open>get_data\<close> returns the error dictionary, forced or not,
  and not the entry's data. (The fallback reads the cache through
  \<^verbatim>\<open>load_cached_data\<close>, which returns fresh entries only.)
\<close>

theorem get_data_stale_entry_not_served:
  "get_data False None
     \<lparr>cache = Entry 0 [[(''player_name'', Text ''A''), (''power_plus'', Numeric (Num 100))]],
      now = 21601000000, on_write = Written\<rparr>
   = (ErrorDict,
      \<lparr>cache = Entry 0 [[(''player_name'', Text ''A''), (''power_plus'', Numeric (Num 100))]],
       now = 21601000000, on_write = Written\<rparr>) \<and>
   get_data True None
     \<lparr>cache = Entry 0 [[(''player_name'', Text ''A''), (''power_plus'', Numeric (Num 100))]],
      now = 21601000000, on_write = Written\<rparr>
   = (ErrorDict,
      \<lparr>cache = Entry 0 [[(''player_name'', Text ''A''), (''power_plus'', Numeric (Num 100))]],
       now = 21601000000, on_write = Written\<rparr>)"
  by (simp add: get_data_def fetch_and_store_def load_cached_data_def CACHE_DURATION_def
      cached_or_error_def)

subsection \<open>Query facade\<close>

text \<open>
  A filter over a Dataset whose field is a number in every record (or absent, when the
  default \<open>0\<close> is used) returns exactly the records at or above the bound; a record
  whose field is \<open>None\<close> makes it raise.
\<close>

lemma comprehension_no_error:
  assumes "\<forall>p \<in> set d. \<exists>b. cond p = Inr b"
  shows "comprehension cond d = Inr (filter (\<lambda>p. cond p = Inr True) d)"
  using assms by (induction d) auto

lemma comprehension_error:
  assumes "p \<in> set d" and "cond p = Inl e"
  shows "\<exists>e'. comprehension cond d = Inl e'"
  using assms by (induction d) (auto split: sum.splits)

lemma over_response_numbers:
  assumes "\<forall>p \<in> set d. \<exists>q. dict_get p k (Numeric (Num 0)) = Numeric (Num q)"
  shows "over_response (\<lambda>p. py_ge (dict_get p k (Numeric (Num 0))) n) (Data d) =
           Inr (filter (\<lambda>p. \<exists>q. dict_get p k (Numeric (Num 0)) = Numeric (Num q) \<and> n \<le> q) d)"
proof -
  have "comprehension (\<lambda>p. py_ge (dict_get p k (Numeric (Num 0))) n) d =
          Inr (filter (\<lambda>p. py_ge (dict_get p k (Numeric (Num 0))) n = Inr True) d)"
    by (rule comprehension_no_error) (use assms in fastforce)
  moreover have "filter (\<lambda>p. py_ge (dict_get p k (Numeric (Num 0))) n = Inr True) d =
      filter (\<lambda>p. \<exists>q. dict_get p k (Numeric (Num 0)) = Numeric (Num q) \<and> n \<le> q) d"
    by (rule filter_cong) (use assms in fastforce)+
  ultimately show ?thesis by (simp add: over_response_def)
qed

lemma over_response_null:
  assumes "p \<in> set d" and "map_of p k = Some (Numeric PyNone)"
  shows "\<exists>e. over_response (\<lambda>p. py_ge (dict_get p k (Numeric (Num 0))) n) (Data d) = Inl e"
proof -
  from assms(2) have "py_ge (dict_get p k (Numeric (Num 0))) n = Inl TypeError"
    by (simp add: dict_get_def)
  with assms(1) show ?thesis
    unfolding over_response_def by (simp add: comprehension_error)
qed

text \<open>
  Claim C7 at a Dataset with a null metric. A fetched table with a row of swing length
  zero gives a Dataset whose second record has \<open>power_plus = None\<close>; on it the elite
  endpoint raises \<^verbatim>\<open>TypeError\<close> (the default of \<^verbatim>\<open>p.get('power_plus', 0)\<close> is used
  only when the key is absent), while the qualified endpoint returns the record with 400
  swings.
\<close>

theorem get_elite_players_null_power_plus:
  "fst (get_data False
     (Some \<lparr>columns = [''player_name'', ''swings'', ''avg_bat_speed'', ''swing_length''],
            rows = [[(''player_name'', Text ''A''), (''swings'', Numeric (Num 400)),
                     (''avg_bat_speed'', Numeric (Num 85)),
                     (''swing_length'', Numeric (to_double (73 / 10)))],
                    [(''player_name'', Text ''B''), (''swings'', Numeric (Num 120)),
                     (''avg_bat_speed'', Numeric (Num 70)), (''swing_length'', Numeric (Num 0))]],
            numbers = builtin_float\<rparr>)
     \<lparr>cache = NoFile, now = 0, on_write = Written\<rparr>)
   = Data [[(''player_name'', Text ''A''), (''swings'', Numeric (Num 400)),
            (''avg_bat_speed'', Numeric (Num 85)),
            (''swing_length'', Numeric (to_double (73 / 10))),
            (''bat_speed'', Numeric (Num 85)),
            (''power_plus'', Numeric (to_double (1181 / 10)))],
           [(''player_name'', Text ''B''), (''swings'', Numeric (Num 120)),
            (''avg_bat_speed'', Numeric (Num 70)), (''swing_length'', Numeric (Num 0)),
            (''bat_speed'', Numeric (Num 70)), (''power_plus'', Numeric PyNone)]] \<and>
   fst (get_elite_players
     (Some \<lparr>columns = [''player_name'', ''swings'', ''avg_bat_speed'', ''swing_length''],
            rows = [[(''player_name'', Text ''A''), (''swings'', Numeric (Num 400)),
                     (''avg_bat_speed'', Numeric (Num 85)),
                     (''swing_length'', Numeric (to_double (73 / 10)))],
                    [(''player_name'', Text ''B''), (''swings'', Numeric (Num 120)),
                     (''avg_bat_speed'', Numeric (Num 70)), (''swing_length'', Numeric (Num 0))]],
            numbers = builtin_float\<rparr>)
     \<lparr>cache = NoFile, now = 0, on_write = Written\<rparr>)
   = Inl TypeError \<and>
   fst (get_qualified_players
     (Some \<lparr>columns = [''player_name'', ''swings'', ''avg_bat_speed'', ''swing_length''],
            rows = [[(''player_name'', Text ''A''), (''swings'', Numeric (Num 400)),
                     (''avg_bat_speed'', Numeric (Num 85)),
                     (''swing_length'', Numeric (to_double (73 / 10)))],
                    [(''player_name'', Text ''B''), (''swings'', Numeric (Num 120)),
                     (''avg_bat_speed'', Numeric (Num 70)), (''swing_length'', Numeric (Num 0))]],
            numbers = builtin_float\<rparr>)
     \<lparr>cache = NoFile, now = 0, on_write = Written\<rparr>)
   = Inr [[(''player_name'', Text ''A''), (''swings'', Numeric (Num 400)),
            (''avg_bat_speed'', Numeric (Num 85)),
            (''swing_length'', Numeric (to_double (73 / 10))),
            (''bat_speed'', Numeric (Num 85)),
            (''power_plus'', Numeric (to_double (1181 / 10)))]]"
proof -
  let ?df = "\<lparr>columns = [''player_name'', ''swings'', ''avg_bat_speed'', ''swing_length''],
            rows = [[(''player_name'', Text ''A''), (''swings'', Numeric (Num 400)),
                     (''avg_bat_speed'', Numeric (Num 85)),
                     (''swing_length'', Numeric (to_double (73 / 10)))],
                    [(''player_name'', Text ''B''), (''swings'', Numeric (Num 120)),
                     (''avg_bat_speed'', Numeric (Num 70)), (''swing_length'', Numeric (Num 0))]],
            numbers = builtin_float\<rparr>"
  let ?w = "\<lparr>cache = NoFile, now = 0, on_write = Written\<rparr>"
  let ?A = "[(''player_name'', Text ''A''), (''swings'', Numeric (Num 400)),
            (''avg_bat_speed'', Numeric (Num 85)),
            (''swing_length'', Numeric (to_double (73 / 10))),
            (''bat_speed'', Numeric (Num 85)),
            (''power_plus'', Numeric (to_double (1181 / 10)))]"
  let ?B = "[(''player_name'', Text ''B''), (''swings'', Numeric (Num 120)),
            (''avg_bat_speed'', Numeric (Num 70)), (''swing_length'', Numeric (Num 0)),
            (''bat_speed'', Numeric (Num 70)), (''power_plus'', Numeric PyNone)]"
  have a: "first_or_none (speed_cols (columns ?df)) = Some ''avg_bat_speed''"
    by (simp add: resolve_examples)
  have b: "first_or_none (length_cols (columns ?df)) = Some ''swing_length''"
    by (simp add: resolve_examples)
  have recs: "to_records (process_data ?df) = [?A, ?B]"
    unfolding to_records_process_data [OF a b]
    by (simp add: cell_of_def power_plus_85_builtin calculate_power_plus_missing)
  have data: "get_data False (Some ?df) ?w = (Data [?A, ?B], save_to_cache [?A, ?B] ?w)"
    by (simp add: get_data_def fetch_and_store_def load_cached_data_def df_empty_def recs Let_def)
  have elite: "over_response (\<lambda>p. py_ge (dict_get p ''power_plus'' (Numeric (Num 0))) 110)
                 (Data [?A, ?B]) = Inl TypeError"
    by (simp add: over_response_def dict_get_def to_double_1181_10)
  have qual: "over_response (\<lambda>p. py_ge (dict_get p ''swings'' (Numeric (Num 0))) 300)
                 (Data [?A, ?B]) = Inr [?A]"
    by (simp add: over_response_def dict_get_def)
  from data elite qual show ?thesis
    by (simp add: get_elite_players_def get_qualified_players_def)
qed

end
